theory Spec2Isabelle
  imports Complex_Main "HOL-Library.Multiset"
begin

section \<open>Errors\<close>

text \<open>
  The exceptions the three modules raise, as values. \<open>ValueError\<close> carries its
  message. \<open>UsageError\<close> carries the argument list its message ends with: the message
  is \<open>Expected no command-line arguments, got: \<close> followed by \<open>str(argv)\<close>.
  \<open>IndexError\<close> is Python's own, raised by \<open>client_ids[0]\<close> on an empty list,
  \<open>KeyError\<close> by a dictionary lookup of a missing key.
\<close>

datatype error =
    UsageError "string list"
  | ValueError string
  | IndexError
  | KeyError string
  | ConfigurationError string

section \<open>Datasets\<close>

text \<open>
  A \<open>tf.data.Dataset\<close> over a finite source is the ordered sequence of its elements.
  \<open>take\<close>, \<open>skip\<close> and \<open>concatenate\<close> are TensorFlow's. The count is a 64-bit
  integer. \<open>take(count)\<close> keeps the first \<open>count\<close> elements, and all of them when
  \<open>count\<close> is negative or exceeds the size. \<open>skip(count)\<close> yields nothing when
  \<open>count\<close> is negative; otherwise it hands the count to the iterator as a 32-bit
  signed integer, which drops that many elements and none when the narrowed count is
  not positive: \<open>skip(2 ^ 31)\<close> drops nothing and \<open>skip(2 ^ 32 + 1)\<close> drops one
  element. A count outside the 64-bit range does not convert to a tensor and the call
  raises; the two functions do not show that, and nothing below is stated of such a
  count.
\<close>

type_synonym 'e dataset = "'e list"

definition narrow_int32 :: "int \<Rightarrow> int" where
  "narrow_int32 n = (n + 2 ^ 31) mod 2 ^ 32 - 2 ^ 31"

definition dataset_take :: "int \<Rightarrow> 'e dataset \<Rightarrow> 'e dataset" where
  "dataset_take cnt ds = (if cnt < 0 then ds else take (nat cnt) ds)"

definition dataset_skip :: "int \<Rightarrow> 'e dataset \<Rightarrow> 'e dataset" where
  "dataset_skip cnt ds =
     (if cnt < 0 then []
      else if narrow_int32 cnt \<le> 0 then ds
      else drop (nat (narrow_int32 cnt)) ds)"

definition dataset_concatenate :: "'e dataset \<Rightarrow> 'e dataset \<Rightarrow> 'e dataset" where
  "dataset_concatenate ds other = ds @ other"

section \<open>Stack Overflow next word prediction: the evaluation split\<close>

text \<open>
  \<open>federated_stackoverflow.run_federated\<close>, lines 133 to 141:
  \<^verbatim>\<open>
  base_test_dataset = test_clientdata.create_tf_dataset_from_all_clients()
  preprocess_val_and_test = stackoverflow_dataset.create_test_dataset_preprocess_fn(...)
  test_set = preprocess_val_and_test(
      base_test_dataset.skip(num_validation_examples))
  validation_set = preprocess_val_and_test(
      base_test_dataset.take(num_validation_examples))
  \<close>
  The preprocessing function is built outside these modules and is a parameter here.
\<close>

definition test_set ::
  "('e dataset \<Rightarrow> 'b dataset) \<Rightarrow> 'e dataset \<Rightarrow> int \<Rightarrow> 'b dataset" where
  "test_set preprocess_val_and_test base_test_dataset num_validation_examples =
     preprocess_val_and_test (dataset_skip num_validation_examples base_test_dataset)"

definition validation_set ::
  "('e dataset \<Rightarrow> 'b dataset) \<Rightarrow> 'e dataset \<Rightarrow> int \<Rightarrow> 'b dataset" where
  "validation_set preprocess_val_and_test base_test_dataset num_validation_examples =
     preprocess_val_and_test (dataset_take num_validation_examples base_test_dataset)"

section \<open>Python string formatting\<close>

text \<open>
  \<open>'{}'.format(x)\<close> and \<open>'{!s}'.format(x)\<close> insert \<open>str(x)\<close>. For a list of strings that
  is the bracketed, comma separated list of the elements' \<open>repr\<close>, and the \<open>repr\<close> of a
  string of letters, digits and underscores is the string between single quotes.
  \<open>py_repr\<close> and \<open>py_str_list\<close> are applied to the two lists of allowed values only,
  \<open>SUPPORTED_TASKS\<close> and \<open>EMNIST_MODELS\<close>, which hold such strings. \<open>str(None)\<close> is
  \<open>None\<close>.
\<close>

definition py_repr :: "string \<Rightarrow> string" where
  "py_repr s = [CHR 0x27] @ s @ [CHR 0x27]"

fun py_join :: "string \<Rightarrow> string list \<Rightarrow> string" where
  "py_join sep [] = []"
| "py_join sep [x] = x"
| "py_join sep (x # y # ys) = x @ sep @ py_join sep (y # ys)"

definition py_str_list :: "string list \<Rightarrow> string" where
  "py_str_list xs = ''['' @ py_join '', '' (map py_repr xs) @ '']''"

definition py_str_optional :: "string option \<Rightarrow> string" where
  "py_str_optional v = (case v of None \<Rightarrow> ''None'' | Some x \<Rightarrow> x)"

section \<open>Models, losses and metrics\<close>

text \<open>
  The Keras objects are built outside these modules; a value of these types is the
  constructor call the driver makes, with the arguments it passes.
  \<open>functools.partial(emnist_models.create_conv_dropout_model, only_digits=False)\<close> is
  \<open>Conv_dropout_model False\<close>, and so on. The loss carries \<open>from_logits\<close> when the
  driver passes it.
\<close>

datatype keras_model =
    Conv_dropout_model bool
  | Two_hidden_layer_model bool
  | Recurrent_model int int int int int bool

datatype keras_loss = SparseCategoricalCrossentropy "bool option"

datatype metric =
    SparseCategoricalAccuracy
  | MaskedCategoricalAccuracy string "int list"
  | NumBatchesCounter
  | NumTokensCounter "int list"

text \<open>\<open>tff.learning.from_keras_model(keras_model=, input_spec=, loss=, metrics=)\<close>.\<close>

record 's tff_model =
  keras_model :: keras_model
  input_spec :: 's
  loss :: keras_loss
  metrics :: "metric list"

section \<open>Client data, and the calls into the training utilities\<close>

record 'e client_data =
  client_ids :: "string list"
  create_tf_dataset_for_client :: "string \<Rightarrow> 'e dataset"

text \<open>
  \<open>training_utils.build_client_datasets_fn(train_dataset=, train_clients_per_round=,
  random_seed=)\<close>: the closure it returns, as the arguments it was built from.
\<close>

record 'e client_datasets_fn =
  train_dataset :: "'e client_data"
  train_clients_per_round :: int
  random_seed :: "int option"

text \<open>
  \<open>training_utils.build_evaluate_fn(eval_dataset=, model_builder=, loss_builder=,
  metrics_builder=, assign_weights_to_keras_model=)\<close>: the evaluation function it
  returns, as the arguments it was built from.
\<close>

record ('b, 'a) evaluate_fn =
  eval_dataset :: "'b dataset"
  eval_model_builder :: keras_model
  eval_loss_builder :: keras_loss
  eval_metrics_builder :: "metric list"
  assign_weights_to_keras_model :: 'a

text \<open>
  \<open>training_loop.run(iterative_process=, client_datasets_fn=, validation_fn=,
  test_fn=)\<close>: the call a driver ends with. The rounds are run inside this call only.
\<close>

record ('p, 'e, 'b, 'a) training_loop_call =
  run_iterative_process :: 'p
  run_client_datasets_fn :: "'e client_datasets_fn"
  run_validation_fn :: "('b, 'a) evaluate_fn"
  run_test_fn :: "('b, 'a) evaluate_fn"

section \<open>EMNIST character recognition\<close>

definition EMNIST_MODELS :: "string list" where
  "EMNIST_MODELS = [''cnn'', ''2nn'']"

text \<open>
  What \<open>federated_emnist.run_federated\<close> takes from outside: the dataset loader
  \<open>emnist_dataset.get_emnist_datasets\<close> and the \<open>element_spec\<close> of a dataset.
\<close>

record ('e, 'b, 's) emnist_env =
  get_emnist_datasets :: "int \<Rightarrow> int \<Rightarrow> bool \<Rightarrow> 'e client_data \<times> 'b dataset"
  element_spec :: "'e dataset \<Rightarrow> 's"

text \<open>
  \<open>federated_emnist.run_federated\<close>. \<open>emnist_train.client_ids[0]\<close> raises IndexError on
  an empty list of clients, before the model flag is looked at. The result is the call
  of \<open>training_loop.run\<close>, or the exception raised before it.
\<close>

definition federated_emnist_run_federated ::
  "('e, 'b, 's) emnist_env \<Rightarrow> ('s tff_model \<Rightarrow> 'p) \<Rightarrow> 'a \<Rightarrow> int \<Rightarrow> int \<Rightarrow> int \<Rightarrow>
   int option \<Rightarrow> string \<Rightarrow> error + ('p, 'e, 'b, 'a) training_loop_call" where
  "federated_emnist_run_federated env iterative_process_builder assign_weights_fn
     client_epochs_per_round client_batch_size clients_per_round
     client_datasets_random_seed emnist_model =
   (case get_emnist_datasets env client_batch_size client_epochs_per_round False of
      (emnist_train, emnist_test) \<Rightarrow>
    (case client_ids emnist_train of
       [] \<Rightarrow> Inl IndexError
     | first_client # _ \<Rightarrow>
      (let spec = element_spec env (create_tf_dataset_for_client emnist_train first_client)
       in
       (case (if emnist_model = ''cnn'' then Inr (Conv_dropout_model False)
              else if emnist_model = ''2nn'' then Inr (Two_hidden_layer_model False)
              else Inl (ValueError (''Cannot handle model flag ['' @ emnist_model
                          @ ''], must be one of '' @ py_str_list EMNIST_MODELS @ ''.''))) of
          Inl e \<Rightarrow> Inl e
        | Inr model_builder \<Rightarrow>
           (let loss_builder = SparseCategoricalCrossentropy None;
                metrics_builder = [SparseCategoricalAccuracy];
                tff_model_fn = \<lparr>keras_model = model_builder, input_spec = spec,
                                loss = loss_builder, metrics = metrics_builder\<rparr>;
                training_process = iterative_process_builder tff_model_fn;
                client_datasets = \<lparr>train_dataset = emnist_train,
                                   train_clients_per_round = clients_per_round,
                                   random_seed = client_datasets_random_seed\<rparr>;
                evaluate = \<lparr>eval_dataset = emnist_test,
                            eval_model_builder = model_builder,
                            eval_loss_builder = loss_builder,
                            eval_metrics_builder = metrics_builder,
                            assign_weights_to_keras_model = assign_weights_fn\<rparr>
            in Inr \<lparr>run_iterative_process = training_process,
                     run_client_datasets_fn = client_datasets,
                     run_validation_fn = evaluate,
                     run_test_fn = evaluate\<rparr>)))))"

section \<open>Stack Overflow next word prediction\<close>

record special_tokens =
  pad :: int
  oov :: "int list"
  bos :: int
  eos :: int

text \<open>\<open>metrics_builder\<close> of \<open>federated_stackoverflow.run_federated\<close>, lines 109 to 121.\<close>

definition metrics_builder :: "special_tokens \<Rightarrow> metric list" where
  "metrics_builder tokens =
     (let pad_token = pad tokens; oov_tokens = oov tokens; eos_token = eos tokens
      in [MaskedCategoricalAccuracy ''accuracy_with_oov'' [pad_token],
          MaskedCategoricalAccuracy ''accuracy_no_oov'' ([pad_token] @ oov_tokens),
          MaskedCategoricalAccuracy ''accuracy_no_oov_or_eos''
            ([pad_token, eos_token] @ oov_tokens),
          NumBatchesCounter,
          NumTokensCounter [pad_token]])"

text \<open>
  Tensors of rank 0 and 1. \<open>tf.squeeze\<close> removes the dimensions of size 1: a vector of
  one element becomes a scalar, any other vector and a scalar stay as they are.
  \<open>tf.cast\<close> converts every element; the conversion from int64 to float32 is
  TensorFlow's and a parameter here.
\<close>

datatype 'x tensor = Scalar 'x | Vector "'x list"

fun tf_squeeze :: "'x tensor \<Rightarrow> 'x tensor" where
  "tf_squeeze (Vector [x]) = Scalar x"
| "tf_squeeze t = t"

fun tf_cast :: "('x \<Rightarrow> 'y) \<Rightarrow> 'x tensor \<Rightarrow> 'y tensor" where
  "tf_cast conv (Scalar x) = Scalar (conv x)"
| "tf_cast conv (Vector xs) = Vector (map conv xs)"

text \<open>
  \<open>client_weight_fn\<close>, lines 160 to 163. \<open>local_outputs\<close> is an ordered dictionary from
  metric names to tensors; a name it does not hold raises KeyError.
\<close>

type_synonym local_outputs = "(string \<times> int tensor) list"

definition client_weight_fn ::
  "(int \<Rightarrow> 'f) \<Rightarrow> local_outputs \<Rightarrow> error + 'f tensor" where
  "client_weight_fn float32 outputs =
     (case map_of outputs ''num_tokens'' of
        None \<Rightarrow> Inl (KeyError ''num_tokens'')
      | Some num_tokens \<Rightarrow> Inr (tf_cast float32 (tf_squeeze num_tokens)))"

text \<open>
  What \<open>federated_stackoverflow.run_federated\<close> takes from outside: the dataset module
  (special tokens, vocabulary, preprocessing functions), the loader of the Stack Overflow
  client data, and TensorFlow's conversion to float32.
\<close>

record ('e, 'b, 'v, 'pp, 's, 'f) stackoverflow_env =
  get_special_tokens :: "int \<Rightarrow> int \<Rightarrow> special_tokens"
  create_vocab :: "int \<Rightarrow> 'v"
  load_data :: "'e client_data \<times> 'e client_data \<times> 'e client_data"
  create_tf_dataset_from_all_clients :: "'e client_data \<Rightarrow> 'e dataset"
  create_test_dataset_preprocess_fn :: "'v \<Rightarrow> int \<Rightarrow> int \<Rightarrow> 'e dataset \<Rightarrow> 'b dataset"
  create_train_dataset_preprocess_fn :: "'v \<Rightarrow> int \<Rightarrow> int \<Rightarrow> int \<Rightarrow> int \<Rightarrow> int \<Rightarrow> 'pp"
  type_signature_result_element :: "'pp \<Rightarrow> 's"
  to_float32 :: "int \<Rightarrow> 'f"

text \<open>
  \<open>federated_stackoverflow.run_federated\<close>. It raises nothing of its own; the result is
  the call of \<open>training_loop.run\<close>.
\<close>

definition federated_stackoverflow_run_federated ::
  "('e, 'b, 'v, 'pp, 's, 'f) stackoverflow_env \<Rightarrow>
   ('s tff_model \<Rightarrow> (local_outputs \<Rightarrow> error + 'f tensor) \<Rightarrow> 'pp \<Rightarrow> 'p) \<Rightarrow> 'a \<Rightarrow>
   int \<Rightarrow> int \<Rightarrow> int \<Rightarrow> int option \<Rightarrow>
   int \<Rightarrow> int \<Rightarrow> int \<Rightarrow> int \<Rightarrow> int \<Rightarrow> int \<Rightarrow> int \<Rightarrow> int \<Rightarrow> bool \<Rightarrow>
   ('p, 'e, 'b, 'a) training_loop_call" where
  "federated_stackoverflow_run_federated env iterative_process_builder assign_weights_fn
     client_epochs_per_round client_batch_size clients_per_round
     client_datasets_random_seed vocab_size num_oov_buckets sequence_length
     max_elements_per_user num_validation_examples embedding_size latent_size
     num_layers shared_embedding =
   (let model_builder = Recurrent_model vocab_size num_oov_buckets embedding_size
                          latent_size num_layers shared_embedding;
        loss_builder = SparseCategoricalCrossentropy (Some True);
        tokens = get_special_tokens env vocab_size num_oov_buckets;
        dataset_vocab = create_vocab env vocab_size
    in
    (case load_data env of (train_clientdata, _, test_clientdata) \<Rightarrow>
     (let base_test_dataset = create_tf_dataset_from_all_clients env test_clientdata;
          preprocess_val_and_test =
            create_test_dataset_preprocess_fn env dataset_vocab num_oov_buckets
              sequence_length;
          test_part = test_set preprocess_val_and_test base_test_dataset
                        num_validation_examples;
          validation_part = validation_set preprocess_val_and_test base_test_dataset
                              num_validation_examples;
          train_dataset_preprocess_comp =
            create_train_dataset_preprocess_fn env (create_vocab env vocab_size)
              num_oov_buckets client_batch_size client_epochs_per_round sequence_length
              max_elements_per_user;
          spec = type_signature_result_element env train_dataset_preprocess_comp;
          tff_model_fn = \<lparr>keras_model = model_builder, input_spec = spec,
                          loss = loss_builder, metrics = metrics_builder tokens\<rparr>;
          training_process = iterative_process_builder tff_model_fn
                               (client_weight_fn (to_float32 env))
                               train_dataset_preprocess_comp;
          client_datasets = \<lparr>train_dataset = train_clientdata,
                             train_clients_per_round = clients_per_round,
                             random_seed = client_datasets_random_seed\<rparr>;
          evaluate = \<lparr>eval_dataset = validation_part,
                      eval_model_builder = model_builder,
                      eval_loss_builder = loss_builder,
                      eval_metrics_builder = metrics_builder tokens,
                      assign_weights_to_keras_model = assign_weights_fn\<rparr>;
          test = \<lparr>eval_dataset = dataset_concatenate validation_part test_part,
                  eval_model_builder = model_builder,
                  eval_loss_builder = loss_builder,
                  eval_metrics_builder = metrics_builder tokens,
                  assign_weights_to_keras_model = assign_weights_fn\<rparr>
      in \<lparr>run_iterative_process = training_process,
           run_client_datasets_fn = client_datasets,
           run_validation_fn = evaluate,
           run_test_fn = test\<rparr>)))"

section \<open>The trainer\<close>

definition SUPPORTED_TASKS :: "string list" where
  "SUPPORTED_TASKS = [''cifar100'', ''emnist_cr'', ''emnist_ae'', ''shakespeare'',
     ''stackoverflow_nwp'', ''stackoverflow_lr'']"

text \<open>
  The flags \<open>main\<close> reads. \<open>task\<close> has no default, so it is \<open>None\<close> when the flag is
  not given.
\<close>

record flags =
  FLAGS_task :: "string option"
  FLAGS_client_epochs_per_round :: int
  FLAGS_client_batch_size :: int
  FLAGS_clients_per_round :: int
  FLAGS_client_datasets_random_seed :: "int option"
  FLAGS_cifar100_crop_size :: int
  FLAGS_emnist_cr_model :: string
  FLAGS_shakespeare_sequence_length :: int
  FLAGS_so_nwp_vocab_size :: int
  FLAGS_so_nwp_num_oov_buckets :: int
  FLAGS_so_nwp_sequence_length :: int
  FLAGS_so_nwp_max_elements_per_user :: int
  FLAGS_so_nwp_num_validation_examples :: int
  FLAGS_so_nwp_embedding_size :: int
  FLAGS_so_nwp_latent_size :: int
  FLAGS_so_nwp_num_layers :: int
  FLAGS_so_nwp_shared_embedding :: bool
  FLAGS_so_lr_vocab_tokens_size :: int
  FLAGS_so_lr_vocab_tags_size :: int
  FLAGS_so_lr_num_validation_examples :: int
  FLAGS_so_lr_max_elements_per_user :: int

text \<open>
  \<open>fed_avg_schedule.build_fed_avg_process(model_fn=, client_optimizer_fn=, client_lr=,
  server_optimizer_fn=, server_lr=, client_weight_fn=, dataset_preprocess_comp=)\<close>:
  the iterative process it returns, as the arguments it was built from.
\<close>

record ('o, 'l, 's, 'f, 'pp) fed_avg_process =
  model_fn :: "'s tff_model"
  client_optimizer_fn :: 'o
  client_lr :: 'l
  server_optimizer_fn :: 'o
  server_lr :: 'l
  process_client_weight_fn :: "(local_outputs \<Rightarrow> error + 'f tensor) option"
  dataset_preprocess_comp :: "'pp option"

text \<open>
  \<open>iterative_process_builder\<close> of \<open>main\<close>, lines 127 to 156, a closure over the two
  optimizers and the two learning rate schedules. Its parameters \<open>client_weight_fn\<close>
  and \<open>dataset_preprocess_comp\<close> default to \<open>None\<close>; a caller that leaves one out
  passes \<open>None\<close> here.
\<close>

definition iterative_process_builder ::
  "'o \<Rightarrow> 'l \<Rightarrow> 'o \<Rightarrow> 'l \<Rightarrow> 's tff_model \<Rightarrow> (local_outputs \<Rightarrow> error + 'f tensor) option \<Rightarrow>
   'pp option \<Rightarrow> ('o, 'l, 's, 'f, 'pp) fed_avg_process" where
  "iterative_process_builder client_optimizer client_lr_schedule server_optimizer
     server_lr_schedule tff_model_fn weight_fn preprocess_comp =
     \<lparr>model_fn = tff_model_fn,
      client_optimizer_fn = client_optimizer,
      client_lr = client_lr_schedule,
      server_optimizer_fn = server_optimizer,
      server_lr = server_lr_schedule,
      process_client_weight_fn = weight_fn,
      dataset_preprocess_comp = preprocess_comp\<rparr>"

record ('o, 'l) optimizer_utils =
  create_optimizer_fn_from_flags :: "string \<Rightarrow> 'o"
  create_lr_schedule_from_flags :: "string \<Rightarrow> 'l"

text \<open>
  The driver \<open>main\<close> calls. The drivers of \<open>cifar100\<close>, \<open>emnist_ae\<close>, \<open>shakespeare\<close> and
  \<open>stackoverflow_lr\<close> are other modules: for them the value is the call, with the
  arguments beyond the common ones. For \<open>emnist_cr\<close> and \<open>stackoverflow_nwp\<close> it is
  what the driver above ends with.
\<close>

datatype ('r1, 'r2) dispatched =
    Cifar100 int
  | Emnist_cr 'r1
  | Emnist_ae
  | Shakespeare int
  | Stackoverflow_nwp 'r2
  | Stackoverflow_lr int int int int

text \<open>
  \<open>main\<close>. The two loops over \<open>FLAGS\<close> collect the flags named \<open>so_nwp_...\<close> and
  \<open>so_lr_...\<close> and pass each to the parameter of the name that follows the prefix.
\<close>

definition main ::
  "('o, 'l) optimizer_utils \<Rightarrow> ('e1, 'b1, 's1) emnist_env \<Rightarrow>
   ('e2, 'b2, 'v, 'pp2, 's2, 'f2) stackoverflow_env \<Rightarrow> 'a \<Rightarrow> string list \<Rightarrow> flags \<Rightarrow>
   error + ((('o, 'l, 's1, 'f2, 'pp2) fed_avg_process, 'e1, 'b1, 'a) training_loop_call,
            (('o, 'l, 's2, 'f2, 'pp2) fed_avg_process, 'e2, 'b2, 'a) training_loop_call)
           dispatched" where
  "main utils emnist stackoverflow assign_weights_fn argv FLAGS =
   (if length argv > 1
    then Inl (UsageError argv)
    else
     (let client_optimizer = create_optimizer_fn_from_flags utils ''client'';
          server_optimizer = create_optimizer_fn_from_flags utils ''server'';
          client_lr_schedule = create_lr_schedule_from_flags utils ''client'';
          server_lr_schedule = create_lr_schedule_from_flags utils ''server''
      in
      if FLAGS_task FLAGS = Some ''cifar100''
      then Inr (Cifar100 (FLAGS_cifar100_crop_size FLAGS))
      else if FLAGS_task FLAGS = Some ''emnist_cr''
      then (case federated_emnist_run_federated emnist
                   (\<lambda>tff_model_fn. iterative_process_builder client_optimizer
                        client_lr_schedule server_optimizer server_lr_schedule
                        tff_model_fn None None)
                   assign_weights_fn
                   (FLAGS_client_epochs_per_round FLAGS)
                   (FLAGS_client_batch_size FLAGS)
                   (FLAGS_clients_per_round FLAGS)
                   (FLAGS_client_datasets_random_seed FLAGS)
                   (FLAGS_emnist_cr_model FLAGS) of
              Inl e \<Rightarrow> Inl e
            | Inr r \<Rightarrow> Inr (Emnist_cr r))
      else if FLAGS_task FLAGS = Some ''emnist_ae''
      then Inr Emnist_ae
      else if FLAGS_task FLAGS = Some ''shakespeare''
      then Inr (Shakespeare (FLAGS_shakespeare_sequence_length FLAGS))
      else if FLAGS_task FLAGS = Some ''stackoverflow_nwp''
      then Inr (Stackoverflow_nwp
             (federated_stackoverflow_run_federated stackoverflow
                (\<lambda>tff_model_fn weight_fn preprocess_comp.
                    iterative_process_builder client_optimizer client_lr_schedule
                      server_optimizer server_lr_schedule tff_model_fn
                      (Some weight_fn) (Some preprocess_comp))
                assign_weights_fn
                (FLAGS_client_epochs_per_round FLAGS)
                (FLAGS_client_batch_size FLAGS)
                (FLAGS_clients_per_round FLAGS)
                (FLAGS_client_datasets_random_seed FLAGS)
                (FLAGS_so_nwp_vocab_size FLAGS)
                (FLAGS_so_nwp_num_oov_buckets FLAGS)
                (FLAGS_so_nwp_sequence_length FLAGS)
                (FLAGS_so_nwp_max_elements_per_user FLAGS)
                (FLAGS_so_nwp_num_validation_examples FLAGS)
                (FLAGS_so_nwp_embedding_size FLAGS)
                (FLAGS_so_nwp_latent_size FLAGS)
                (FLAGS_so_nwp_num_layers FLAGS)
                (FLAGS_so_nwp_shared_embedding FLAGS)))
      else if FLAGS_task FLAGS = Some ''stackoverflow_lr''
      then Inr (Stackoverflow_lr (FLAGS_so_lr_vocab_tokens_size FLAGS)
                  (FLAGS_so_lr_vocab_tags_size FLAGS)
                  (FLAGS_so_lr_num_validation_examples FLAGS)
                  (FLAGS_so_lr_max_elements_per_user FLAGS))
      else Inl (ValueError (''--task flag '' @ py_str_optional (FLAGS_task FLAGS)
                  @ '' is not supported, must be one of ''
                  @ py_str_list SUPPORTED_TASKS @ ''.''))))"

text \<open>
  The exclusion sets of the masked accuracy metrics of a metrics list, by metric name.
\<close>

fun accuracy_exclusions :: "metric list \<Rightarrow> (string \<times> int set) list" where
  "accuracy_exclusions [] = []"
| "accuracy_exclusions (MaskedCategoricalAccuracy name masked_tokens # ms) =
     (name, set masked_tokens) # accuracy_exclusions ms"
| "accuracy_exclusions (m # ms) = accuracy_exclusions ms"

text \<open>
  The claim about the two evaluation functions, in the spec's words: validation
  evaluates on the validation split alone, test on the concatenation of the validation
  split and the test split.
\<close>

definition evaluates_on_split ::
  "('p, 'e, 'b, 'a) training_loop_call \<Rightarrow> 'b dataset \<Rightarrow> 'b dataset \<Rightarrow> bool" where
  "evaluates_on_split call validation test =
     (eval_dataset (run_validation_fn call) = validation
      \<and> eval_dataset (run_test_fn call) = dataset_concatenate validation test)"

text \<open>The masked tokens of the token counters of a metrics list.\<close>

fun token_counters :: "metric list \<Rightarrow> int list list" where
  "token_counters [] = []"
| "token_counters (NumTokensCounter masked_tokens # ms) =
     masked_tokens # token_counters ms"
| "token_counters (m # ms) = token_counters ms"

text \<open>
  Modelled from the spec: \<open>keras_metrics.NumTokensCounter\<close> is a class of another
  module. Section 4.5 has it track the "total non-padding token count processed": the
  number of ground-truth tokens outside \<open>masked_tokens\<close>; lines 161 and 162 of
  \<open>federated_stackoverflow\<close> have the count reported as a tensor of type \<open>int64[1]\<close>.
\<close>

definition num_tokens_counter :: "int list \<Rightarrow> int list \<Rightarrow> int tensor" where
  "num_tokens_counter masked_tokens y_true =
     Vector [int (length (filter (\<lambda>token. token \<notin> set masked_tokens) y_true))]"

text \<open>
  Modelled from the spec: \<open>fed_avg_schedule.build_fed_avg_process\<close> is another module.
  Section 4.3 has the training process weight each client's model delta by the task's
  \<open>client_weight_fn\<close> applied to the client's local outputs, with the "Default: weight =
  number of examples processed by the client this round" (the docstring of
  \<open>iterative_process_builder\<close> says the same of a \<open>client_weight_fn\<close> that is not
  provided). The weight is a scalar of the weights' type; \<open>to_weight\<close> takes the number
  of examples there.
\<close>

definition client_weight ::
  "('o, 'l, 's, 'f, 'pp) fed_avg_process \<Rightarrow> (int \<Rightarrow> 'f) \<Rightarrow> int \<Rightarrow> local_outputs \<Rightarrow>
   error + 'f tensor" where
  "client_weight process to_weight num_examples outputs =
     (case process_client_weight_fn process of
        None \<Rightarrow> Inr (Scalar (to_weight num_examples))
      | Some weight_fn \<Rightarrow> weight_fn outputs)"

section \<open>The client sampler and the round loop\<close>

text \<open>
  Modelled from the spec: \<open>training_utils.build_client_datasets_fn\<close>, the sampler the
  drivers build, is another module. Section 4.1 has \<open>sample(round_index,
  clients_per_round, seed)\<close> return exactly \<open>clients_per_round\<close> distinct client
  identifiers, drawn without replacement, or fail with ConfigurationError if
  \<open>clients_per_round\<close> exceeds the number of available clients; with a seed the
  selection is a function of the seed and the round index, without one it need not be
  reproducible. \<open>draw\<close> picks \<open>k\<close> clients one after the other, each pick leaving the
  pool. The numbers that decide the picks come from a pseudo-random generator keyed by
  the seed and the round index when there is a seed, and from the entropy of the run
  otherwise; both are parameters.
\<close>

fun draw :: "'c list \<Rightarrow> nat \<Rightarrow> (nat \<Rightarrow> nat) \<Rightarrow> 'c list" where
  "draw pool 0 numbers = []"
| "draw pool (Suc k) numbers =
     (if pool = [] then []
      else (let i = numbers k mod length pool
            in pool ! i # draw (take i pool @ drop (Suc i) pool) k numbers))"

definition sample ::
  "(int \<Rightarrow> nat \<Rightarrow> nat \<Rightarrow> nat) \<Rightarrow> (nat \<Rightarrow> nat \<Rightarrow> nat) \<Rightarrow> 'e client_datasets_fn \<Rightarrow> nat \<Rightarrow>
   error + string list" where
  "sample generator entropy fn round_index =
     (let ids = client_ids (train_dataset fn);
          clients_per_round = train_clients_per_round fn
      in if int (length ids) < clients_per_round
         then Inl (ConfigurationError ''clients_per_round exceeds the available clients'')
         else Inr (draw ids (nat clients_per_round)
                     (case random_seed fn of
                        Some seed \<Rightarrow> generator seed round_index
                      | None \<Rightarrow> entropy round_index)))"

text \<open>
  Modelled from the spec: \<open>training_loop.run\<close> is another module. Section 4.2 has the
  loop call \<open>initialize\<close> once at the start and then, for the round indices
  \<open>0 .. num_rounds - 1\<close> in order, sample the clients, resolve their datasets, call
  \<open>next\<close> on the current server state and the datasets, record the metrics and replace
  the state; a round that fails ends the experiment. The operations \<open>initialize\<close> and
  \<open>next\<close> of the iterative process are parameters. The result is the last server
  state and the events of the run in their order: the call of \<open>initialize\<close> with the
  state it returned, each sampling with the clients drawn, and each call of \<open>next\<close>
  with the state and datasets it was given and the state and metrics it returned.
  A client's dataset is resolved by \<open>create_tf_dataset_for_client\<close> of the training
  data, which is total here: the sampler draws among the available clients only.
  Evaluation is left out.
\<close>

datatype ('s, 'd, 't) event =
    Initialize 's
  | Sample nat "string list"
  | Next nat 's "'d list" 's 't

fun rounds ::
  "(nat \<Rightarrow> error + string list) \<Rightarrow> (string \<Rightarrow> 'd) \<Rightarrow> ('s \<Rightarrow> 'd list \<Rightarrow> 's \<times> 't) \<Rightarrow>
   nat \<Rightarrow> nat \<Rightarrow> 's \<Rightarrow> error + 's \<times> ('s, 'd, 't) event list" where
  "rounds sample_fn resolve next_fn r 0 state = Inr (state, [])"
| "rounds sample_fn resolve next_fn r (Suc n) state =
     (case sample_fn r of
        Inl e \<Rightarrow> Inl e
      | Inr ids \<Rightarrow>
         (let datasets = map resolve ids
          in case next_fn state datasets of
               (state', round_metrics) \<Rightarrow>
                 (case rounds sample_fn resolve next_fn (Suc r) n state' of
                    Inl e \<Rightarrow> Inl e
                  | Inr (final, events) \<Rightarrow>
                      Inr (final, Sample r ids
                                  # Next r state datasets state' round_metrics
                                  # events))))"

definition training_loop_run ::
  "(int \<Rightarrow> nat \<Rightarrow> nat \<Rightarrow> nat) \<Rightarrow> (nat \<Rightarrow> nat \<Rightarrow> nat) \<Rightarrow> ('p \<Rightarrow> 's) \<Rightarrow>
   ('p \<Rightarrow> 's \<Rightarrow> 'e dataset list \<Rightarrow> 's \<times> 't) \<Rightarrow> ('p, 'e, 'b, 'a) training_loop_call \<Rightarrow> nat \<Rightarrow>
   error + 's \<times> ('s, 'e dataset, 't) event list" where
  "training_loop_run generator entropy initialize next_fn call num_rounds =
     (let process = run_iterative_process call;
          fn = run_client_datasets_fn call;
          state = initialize process
      in case rounds (sample generator entropy fn)
                (create_tf_dataset_for_client (train_dataset fn))
                (next_fn process) 0 num_rounds state of
           Inl e \<Rightarrow> Inl e
         | Inr (final, events) \<Rightarrow> Inr (final, Initialize state # events))"

text \<open>
  The events of rounds \<open>r, r + 1, ...\<close> in strict sequence from a server state: every
  round is a sampling followed by the call of \<open>next\<close> on the datasets of the clients
  sampled and on the state the round before returned.
\<close>

fun sequential ::
  "(nat \<Rightarrow> error + string list) \<Rightarrow> (string \<Rightarrow> 'd) \<Rightarrow> ('s \<Rightarrow> 'd list \<Rightarrow> 's \<times> 't) \<Rightarrow>
   nat \<Rightarrow> 's \<Rightarrow> ('s, 'd, 't) event list \<Rightarrow> bool" where
  "sequential sample_fn resolve next_fn r state [] = True"
| "sequential sample_fn resolve next_fn r state
     (Sample r1 ids # Next r2 state_in datasets state_out round_metrics # events) =
     (r1 = r \<and> r2 = r \<and> sample_fn r = Inr ids \<and> state_in = state
      \<and> datasets = map resolve ids
      \<and> next_fn state datasets = (state_out, round_metrics)
      \<and> sequential sample_fn resolve next_fn (Suc r) state_out events)"
| "sequential sample_fn resolve next_fn r state events = False"

text \<open>The calls of \<open>initialize\<close>, the samplings and the calls of \<open>next\<close> among events.\<close>

fun initialize_calls :: "('s, 'd, 't) event list \<Rightarrow> 's list" where
  "initialize_calls [] = []"
| "initialize_calls (Initialize state # events) = state # initialize_calls events"
| "initialize_calls (ev # events) = initialize_calls events"

fun sampled :: "('s, 'd, 't) event list \<Rightarrow> string list list" where
  "sampled [] = []"
| "sampled (Sample r ids # events) = ids # sampled events"
| "sampled (ev # events) = sampled events"

fun next_calls :: "('s, 'd, 't) event list \<Rightarrow> (nat \<times> 'd list) list" where
  "next_calls [] = []"
| "next_calls (Next r state_in datasets state_out round_metrics # events) =
     (r, datasets) # next_calls events"
| "next_calls (ev # events) = next_calls events"

section \<open>Example inputs\<close>

definition example_emnist_env :: "(nat, nat, unit) emnist_env" where
  "example_emnist_env =
     \<lparr>get_emnist_datasets = (\<lambda>batch_size epochs only_digits.
         (\<lparr>client_ids = [''f0000_14'', ''f0001_41''],
           create_tf_dataset_for_client =
             (\<lambda>c. if c = ''f0000_14'' then [1, 2] else [3])\<rparr>,
          [10, 20, 30])),
      element_spec = (\<lambda>d. ())\<rparr>"

definition example_clientdata :: "nat client_data" where
  "example_clientdata =
     \<lparr>client_ids = [''a'', ''b''],
      create_tf_dataset_for_client = (\<lambda>c. if c = ''a'' then [10, 20] else [30])\<rparr>"

definition example_stackoverflow_env ::
  "(nat, nat, unit, unit, unit, real) stackoverflow_env" where
  "example_stackoverflow_env =
     \<lparr>get_special_tokens = (\<lambda>vocab_size num_oov_buckets.
         \<lparr>pad = 0,
          oov = map (\<lambda>i. vocab_size + 1 + int i) [0 ..< nat num_oov_buckets],
          bos = vocab_size + num_oov_buckets + 1,
          eos = vocab_size + num_oov_buckets + 2\<rparr>),
      create_vocab = (\<lambda>vocab_size. ()),
      load_data = (example_clientdata, example_clientdata, example_clientdata),
      create_tf_dataset_from_all_clients =
        (\<lambda>d. concat (map (create_tf_dataset_for_client d) (client_ids d))),
      create_test_dataset_preprocess_fn = (\<lambda>vocab num_oov_buckets max_seq_len. map Suc),
      create_train_dataset_preprocess_fn = (\<lambda>vocab n b e l m. ()),
      type_signature_result_element = (\<lambda>comp. ()),
      to_float32 = real_of_int\<rparr>"

definition example_flags :: flags where
  "example_flags =
     \<lparr>FLAGS_task = Some ''emnist_cr'',
      FLAGS_client_epochs_per_round = 1,
      FLAGS_client_batch_size = 20,
      FLAGS_clients_per_round = 10,
      FLAGS_client_datasets_random_seed = Some 1,
      FLAGS_cifar100_crop_size = 24,
      FLAGS_emnist_cr_model = ''cnn'',
      FLAGS_shakespeare_sequence_length = 80,
      FLAGS_so_nwp_vocab_size = 10000,
      FLAGS_so_nwp_num_oov_buckets = 1,
      FLAGS_so_nwp_sequence_length = 20,
      FLAGS_so_nwp_max_elements_per_user = 1000,
      FLAGS_so_nwp_num_validation_examples = 10000,
      FLAGS_so_nwp_embedding_size = 96,
      FLAGS_so_nwp_latent_size = 670,
      FLAGS_so_nwp_num_layers = 1,
      FLAGS_so_nwp_shared_embedding = False,
      FLAGS_so_lr_vocab_tokens_size = 10000,
      FLAGS_so_lr_vocab_tags_size = 500,
      FLAGS_so_lr_num_validation_examples = 10000,
      FLAGS_so_lr_max_elements_per_user = 1000\<rparr>"

definition example_utils :: "(string, string) optimizer_utils" where
  "example_utils =
     \<lparr>create_optimizer_fn_from_flags = (\<lambda>prefix. prefix @ ''_optimizer''),
      create_lr_schedule_from_flags = (\<lambda>prefix. prefix @ ''_lr_schedule'')\<rparr>"

definition example_generator :: "int \<Rightarrow> nat \<Rightarrow> nat \<Rightarrow> nat" where
  "example_generator seed round_index j = nat \<bar>seed\<bar> * 31 + round_index * 17 + j * 7"

definition example_five_clients :: "nat client_data" where
  "example_five_clients =
     \<lparr>client_ids = [''c0'', ''c1'', ''c2'', ''c3'', ''c4''],
      create_tf_dataset_for_client = (\<lambda>c. [length c, 7])\<rparr>"

definition example_sampler :: "nat client_datasets_fn" where
  "example_sampler =
     \<lparr>train_dataset = example_five_clients, train_clients_per_round = 2,
      random_seed = Some 1\<rparr>"

definition example_call :: "(unit, nat, nat, unit) training_loop_call" where
  "example_call =
     \<lparr>run_iterative_process = (),
      run_client_datasets_fn = example_sampler,
      run_validation_fn = \<lparr>eval_dataset = [], eval_model_builder = Conv_dropout_model False,
         eval_loss_builder = SparseCategoricalCrossentropy None,
         eval_metrics_builder = [SparseCategoricalAccuracy],
         assign_weights_to_keras_model = ()\<rparr>,
      run_test_fn = \<lparr>eval_dataset = [], eval_model_builder = Conv_dropout_model False,
         eval_loss_builder = SparseCategoricalCrossentropy None,
         eval_metrics_builder = [SparseCategoricalAccuracy],
         assign_weights_to_keras_model = ()\<rparr>\<rparr>"

section \<open>Properties of the evaluation split\<close>

lemma narrow_int32_in_range:
  "- (2 ^ 31) \<le> n \<Longrightarrow> n < 2 ^ 31 \<Longrightarrow> narrow_int32 n = n"
  by (simp add: narrow_int32_def)

lemma dataset_take_in_range:
  "0 \<le> K \<Longrightarrow> dataset_take K ds = take (nat K) ds"
  by (simp add: dataset_take_def)

lemma dataset_skip_in_range:
  assumes "0 \<le> K" and "K < 2 ^ 31"
  shows "dataset_skip K ds = drop (nat K) ds"
proof -
  from assms have n: "narrow_int32 K = K"
    by (intro narrow_int32_in_range) simp_all
  show ?thesis
  proof (cases "K = 0")
    case True
    with n show ?thesis by (simp add: dataset_skip_def)
  next
    case False
    with assms n show ?thesis by (simp add: dataset_skip_def)
  qed
qed

lemma distinct_take_drop_disjoint:
  "distinct ds \<Longrightarrow> set (take n ds) \<inter> set (drop n ds) = {}"
proof -
  assume "distinct ds"
  then have "distinct (take n ds @ drop n ds)" by simp
  then show ?thesis by (simp only: distinct_append)
qed

text \<open>
  C4, as stated. At a cutoff larger than the held-out dataset: with two examples and
  \<open>num_validation_examples = 3\<close> the validation split holds two examples, not three.
  At a cutoff that does not fit 32 bits: with \<open>2 ^ 31\<close> examples and
  \<open>num_validation_examples = 2 ^ 31\<close> the test split is not empty, \<open>skip\<close> having
  dropped nothing.
\<close>

theorem evaluation_split_size_counterexample:
  "\<not> (length (validation_set (\<lambda>d. d) [10, 20 :: nat] 3) = nat 3
      \<and> int (length (test_set (\<lambda>d. d) [10, 20 :: nat] 3)) = int (length [10, 20 :: nat]) - 3)
   \<and> \<not> (length (validation_set (\<lambda>d. d) (replicate 2147483648 (0 :: nat)) 2147483648)
          = nat 2147483648
        \<and> int (length (test_set (\<lambda>d. d) (replicate 2147483648 (0 :: nat)) 2147483648))
          = int (length (replicate 2147483648 (0 :: nat))) - 2147483648)"
  by (simp add: validation_set_def test_set_def dataset_take_def dataset_skip_def
        narrow_int32_def)

text \<open>
  C4, amended. For a cutoff \<open>K\<close> with \<open>0 \<le> K \<le> N\<close> and \<open>K < 2 ^ 31\<close>, the validation
  split is the preprocessed first \<open>K\<close> examples of the held-out dataset and the test
  split the preprocessed remaining \<open>N - K\<close> examples. The two parts occupy disjoint
  positions of the held-out dataset (and share no example when its examples are
  pairwise different), and their concatenation is the held-out dataset, so the
  multisets add up.
\<close>

theorem evaluation_split_partition:
  fixes base :: "'e dataset" and pre :: "'e dataset \<Rightarrow> 'b dataset" and K :: int
  shows "0 \<le> K \<and> K \<le> int (length base) \<and> K < 2 ^ 31 \<longrightarrow>
         validation_set pre base K = pre (take (nat K) base)
       \<and> test_set pre base K = pre (drop (nat K) base)
       \<and> dataset_take K base = take (nat K) base
       \<and> dataset_skip K base = drop (nat K) base
       \<and> length (dataset_take K base) = nat K
       \<and> length (dataset_skip K base) = length base - nat K
       \<and> dataset_concatenate (dataset_take K base) (dataset_skip K base) = base
       \<and> mset (dataset_take K base) + mset (dataset_skip K base) = mset base
       \<and> (\<forall>i < length (dataset_take K base). dataset_take K base ! i = base ! i)
       \<and> (\<forall>j < length (dataset_skip K base). dataset_skip K base ! j = base ! (nat K + j))
       \<and> (distinct base \<longrightarrow> set (dataset_take K base) \<inter> set (dataset_skip K base) = {})"
proof (intro impI)
  assume a: "0 \<le> K \<and> K \<le> int (length base) \<and> K < 2 ^ 31"
  then have t: "dataset_take K base = take (nat K) base"
    by (simp add: dataset_take_in_range)
  from a have s: "dataset_skip K base = drop (nat K) base"
    by (simp add: dataset_skip_in_range)
  from a have le: "nat K \<le> length base" by linarith
  have v: "validation_set pre base K = pre (take (nat K) base)"
    by (simp add: validation_set_def t)
  have ts: "test_set pre base K = pre (drop (nat K) base)"
    by (simp add: test_set_def s)
  have lt: "length (take (nat K) base) = nat K"
    using le by simp
  have ld: "length (drop (nat K) base) = length base - nat K"
    by simp
  have cat: "dataset_concatenate (take (nat K) base) (drop (nat K) base) = base"
    by (simp add: dataset_concatenate_def)
  have ms: "mset (take (nat K) base) + mset (drop (nat K) base) = mset base"
    by (simp flip: mset_append)
  have prefix: "\<forall>i < length (take (nat K) base). take (nat K) base ! i = base ! i"
    by simp
  have rest: "\<forall>j < length (drop (nat K) base). drop (nat K) base ! j = base ! (nat K + j)"
    using le by simp
  have disj: "distinct base \<longrightarrow> set (take (nat K) base) \<inter> set (drop (nat K) base) = {}"
    by (simp add: distinct_take_drop_disjoint)
  show "validation_set pre base K = pre (take (nat K) base)
       \<and> test_set pre base K = pre (drop (nat K) base)
       \<and> dataset_take K base = take (nat K) base
       \<and> dataset_skip K base = drop (nat K) base
       \<and> length (dataset_take K base) = nat K
       \<and> length (dataset_skip K base) = length base - nat K
       \<and> dataset_concatenate (dataset_take K base) (dataset_skip K base) = base
       \<and> mset (dataset_take K base) + mset (dataset_skip K base) = mset base
       \<and> (\<forall>i < length (dataset_take K base). dataset_take K base ! i = base ! i)
       \<and> (\<forall>j < length (dataset_skip K base). dataset_skip K base ! j = base ! (nat K + j))
       \<and> (distinct base \<longrightarrow> set (dataset_take K base) \<inter> set (dataset_skip K base) = {})"
    unfolding t s
    using v ts lt ld cat ms prefix rest disj by blast
qed

theorem evaluation_split_partition_witness:
  "validation_set (map Suc) [10, 20, 30 :: nat] 2 = [11, 21]
   \<and> test_set (map Suc) [10, 20, 30 :: nat] 2 = [31]
   \<and> dataset_take 2 [10, 20, 30 :: nat] = [10, 20]
   \<and> dataset_skip 2 [10, 20, 30 :: nat] = [30]
   \<and> length (dataset_take 2 [10, 20, 30 :: nat]) = nat 2
   \<and> length (dataset_skip 2 [10, 20, 30 :: nat]) = length [10, 20, 30 :: nat] - nat 2
   \<and> dataset_concatenate (dataset_take 2 [10, 20, 30 :: nat]) (dataset_skip 2 [10, 20, 30 :: nat])
       = [10, 20, 30]
   \<and> set (dataset_take 2 [10, 20, 30 :: nat]) \<inter> set (dataset_skip 2 [10, 20, 30 :: nat]) = {}"
proof -
  have a: "(0::int) \<le> 2 \<and> (2::int) \<le> int (length [10, 20, 30 :: nat]) \<and> (2::int) < 2 ^ 31"
    by simp
  have c: "distinct [10, 20, 30 :: nat]" by simp
  have t2: "take (nat 2) [10, 20, 30 :: nat] = [10, 20]"
    by (simp add: numeral_2_eq_2)
  have d2: "drop (nat 2) [10, 20, 30 :: nat] = [30]"
    by (simp add: numeral_2_eq_2)
  note inst = evaluation_split_partition [of 2 "[10, 20, 30 :: nat]" "map Suc", THEN mp, OF a]
  from inst c show ?thesis
    by (simp add: t2 d2 dataset_concatenate_def)
qed

section \<open>The drivers: what they return and when they raise\<close>

lemma emnist_run_Inr:
  assumes "federated_emnist_run_federated env ipb aw ep bs k seed m = Inr call"
  shows "run_validation_fn call = run_test_fn call"
    and "eval_dataset (run_validation_fn call) = snd (get_emnist_datasets env bs ep False)"
    and "eval_dataset (run_test_fn call) = snd (get_emnist_datasets env bs ep False)"
    and "assign_weights_to_keras_model (run_validation_fn call) = aw"
    and "assign_weights_to_keras_model (run_test_fn call) = aw"
  using assms
  by (auto simp: federated_emnist_run_federated_def Let_def
           split: prod.splits list.splits if_splits)

lemma emnist_run_returns:
  assumes "client_ids (fst (get_emnist_datasets env bs ep False)) \<noteq> []"
    and "m \<in> set EMNIST_MODELS"
  shows "\<exists>call. federated_emnist_run_federated env ipb aw ep bs k seed m = Inr call"
  using assms
  by (auto simp: federated_emnist_run_federated_def Let_def EMNIST_MODELS_def
           split: prod.splits list.splits)

lemma emnist_run_invalid_model:
  assumes "m \<notin> set EMNIST_MODELS"
  shows "isl (federated_emnist_run_federated env ipb aw ep bs k seed m)"
    and "client_ids (fst (get_emnist_datasets env bs ep False)) \<noteq> [] \<Longrightarrow>
         federated_emnist_run_federated env ipb aw ep bs k seed m =
           Inl (ValueError (''Cannot handle model flag ['' @ m
                  @ ''], must be one of ['cnn', '2nn'].''))"
  using assms
  by (auto simp: federated_emnist_run_federated_def Let_def EMNIST_MODELS_def
        py_str_list_def py_repr_def
           split: prod.splits list.splits)

lemma py_str_list_SUPPORTED_TASKS:
  "py_str_list SUPPORTED_TASKS =
     ''['cifar100', 'emnist_cr', 'emnist_ae', 'shakespeare', 'stackoverflow_nwp', 'stackoverflow_lr']''"
  by (simp add: py_str_list_def SUPPORTED_TASKS_def py_repr_def)

lemma main_unsupported_task:
  assumes "length argv \<le> 1" and "FLAGS_task FLAGS \<notin> Some ` set SUPPORTED_TASKS"
  shows "main utils emnist so aw argv FLAGS =
     Inl (ValueError (''--task flag '' @ py_str_optional (FLAGS_task FLAGS)
            @ '' is not supported, must be one of ''
            @ py_str_list SUPPORTED_TASKS @ ''.''))"
proof -
  from assms(2) have "FLAGS_task FLAGS \<noteq> Some ''cifar100''"
    "FLAGS_task FLAGS \<noteq> Some ''emnist_cr''" "FLAGS_task FLAGS \<noteq> Some ''emnist_ae''"
    "FLAGS_task FLAGS \<noteq> Some ''shakespeare''" "FLAGS_task FLAGS \<noteq> Some ''stackoverflow_nwp''"
    "FLAGS_task FLAGS \<noteq> Some ''stackoverflow_lr''"
    by (auto simp: SUPPORTED_TASKS_def)
  with assms(1) show ?thesis
    by (simp add: main_def Let_def)
qed

lemma main_emnist:
  assumes "length argv \<le> 1" and "FLAGS_task FLAGS = Some ''emnist_cr''"
  shows "main utils emnist so aw argv FLAGS =
     (case federated_emnist_run_federated emnist
                   (\<lambda>tff_model_fn. iterative_process_builder
                        (create_optimizer_fn_from_flags utils ''client'')
                        (create_lr_schedule_from_flags utils ''client'')
                        (create_optimizer_fn_from_flags utils ''server'')
                        (create_lr_schedule_from_flags utils ''server'')
                        tff_model_fn None None)
                   aw
                   (FLAGS_client_epochs_per_round FLAGS)
                   (FLAGS_client_batch_size FLAGS)
                   (FLAGS_clients_per_round FLAGS)
                   (FLAGS_client_datasets_random_seed FLAGS)
                   (FLAGS_emnist_cr_model FLAGS) of
              Inl e \<Rightarrow> Inl e
            | Inr r \<Rightarrow> Inr (Emnist_cr r))"
  using assms by (simp add: main_def Let_def)

lemma stackoverflow_eval_fns:
  "evaluates_on_split
     (federated_stackoverflow_run_federated env ipb aw ep bs k seed vs noov sl meu K es ls nl se)
     (validation_set (create_test_dataset_preprocess_fn env (create_vocab env vs) noov sl)
        (create_tf_dataset_from_all_clients env (snd (snd (load_data env)))) K)
     (test_set (create_test_dataset_preprocess_fn env (create_vocab env vs) noov sl)
        (create_tf_dataset_from_all_clients env (snd (snd (load_data env)))) K)"
  by (simp add: federated_stackoverflow_run_federated_def evaluates_on_split_def Let_def
        split: prod.splits)

lemma stackoverflow_assign:
  "assign_weights_to_keras_model (run_validation_fn
     (federated_stackoverflow_run_federated env ipb aw ep bs k seed vs noov sl meu K es ls nl se)) = aw
   \<and> assign_weights_to_keras_model (run_test_fn
     (federated_stackoverflow_run_federated env ipb aw ep bs k seed vs noov sl meu K es ls nl se)) = aw"
  by (simp add: federated_stackoverflow_run_federated_def Let_def split: prod.splits)

section \<open>The evaluation functions of the two drivers\<close>

text \<open>
  C10. Whenever the EMNIST driver reaches \<open>training_loop.run\<close>, the validation function
  and the test function it passes are the same evaluation function, and the dataset
  that function evaluates on is the whole held-out dataset \<open>emnist_test\<close> the loader
  returned: no prefix or remainder of it is taken. The driver does reach that call when
  the training data has a client and the model flag is one of \<open>EMNIST_MODELS\<close>.
\<close>

theorem emnist_validation_is_test:
  "(\<forall>call. federated_emnist_run_federated env ipb aw ep bs k seed m = Inr call \<longrightarrow>
        run_validation_fn call = run_test_fn call
      \<and> eval_dataset (run_validation_fn call) = snd (get_emnist_datasets env bs ep False)
      \<and> eval_dataset (run_test_fn call) = snd (get_emnist_datasets env bs ep False))
   \<and> (client_ids (fst (get_emnist_datasets env bs ep False)) \<noteq> [] \<and> m \<in> set EMNIST_MODELS \<longrightarrow>
        (\<exists>call. federated_emnist_run_federated env ipb aw ep bs k seed m = Inr call))"
proof (intro conjI allI impI)
  fix call
  assume r: "federated_emnist_run_federated env ipb aw ep bs k seed m = Inr call"
  show "run_validation_fn call = run_test_fn call"
    by (rule emnist_run_Inr(1) [OF r])
  show "eval_dataset (run_validation_fn call) = snd (get_emnist_datasets env bs ep False)"
    by (rule emnist_run_Inr(2) [OF r])
  show "eval_dataset (run_test_fn call) = snd (get_emnist_datasets env bs ep False)"
    by (rule emnist_run_Inr(3) [OF r])
next
  assume a: "client_ids (fst (get_emnist_datasets env bs ep False)) \<noteq> [] \<and> m \<in> set EMNIST_MODELS"
  show "\<exists>call. federated_emnist_run_federated env ipb aw ep bs k seed m = Inr call"
    using a by (intro emnist_run_returns) simp_all
qed

theorem emnist_validation_is_test_witness:
  "\<exists>call. federated_emnist_run_federated example_emnist_env (\<lambda>model. model) ()
              1 20 10 (Some 1) ''2nn'' = Inr call
     \<and> run_validation_fn call = run_test_fn call
     \<and> eval_dataset (run_validation_fn call) = [10, 20, 30]
     \<and> eval_dataset (run_test_fn call) = [10, 20, 30]"
proof -
  have ids: "client_ids (fst (get_emnist_datasets example_emnist_env 20 1 False)) \<noteq> []"
    by (simp add: example_emnist_env_def)
  have model: "''2nn'' \<in> set EMNIST_MODELS"
    by (simp add: EMNIST_MODELS_def)
  have held_out: "snd (get_emnist_datasets example_emnist_env 20 1 False) = [10, 20, 30]"
    by (simp add: example_emnist_env_def)
  note inst = emnist_validation_is_test
         [of example_emnist_env "\<lambda>model. model" "()" 1 20 10 "Some 1" "''2nn''"]
  from inst ids model obtain call where
    r: "federated_emnist_run_federated example_emnist_env (\<lambda>model. model) ()
              1 20 10 (Some 1) ''2nn'' = Inr call"
    by blast
  from inst r have "run_validation_fn call = run_test_fn call
      \<and> eval_dataset (run_validation_fn call) = snd (get_emnist_datasets example_emnist_env 20 1 False)
      \<and> eval_dataset (run_test_fn call) = snd (get_emnist_datasets example_emnist_env 20 1 False)"
    by blast
  with r held_out show ?thesis by auto
qed

text \<open>
  C5, as stated for every driver, at the EMNIST driver with a held-out dataset of three
  examples: validation and test both evaluate on all three, so for no cutoff that
  leaves an example to the test split does validation evaluate on the validation split
  alone.
\<close>

theorem evaluation_functions_every_driver_counterexample:
  "case federated_emnist_run_federated example_emnist_env (\<lambda>model. model) ()
          1 20 10 (Some 1) ''cnn'' of
     Inl e \<Rightarrow> False
   | Inr call \<Rightarrow>
       eval_dataset (run_validation_fn call) = [10, 20, 30]
     \<and> eval_dataset (run_test_fn call) = [10, 20, 30]
     \<and> \<not> evaluates_on_split call (dataset_take 0 [10, 20, 30]) (dataset_skip 0 [10, 20, 30])
     \<and> \<not> evaluates_on_split call (dataset_take 1 [10, 20, 30]) (dataset_skip 1 [10, 20, 30])
     \<and> \<not> evaluates_on_split call (dataset_take 2 [10, 20, 30]) (dataset_skip 2 [10, 20, 30])"
  by (simp add: federated_emnist_run_federated_def example_emnist_env_def Let_def
        evaluates_on_split_def dataset_take_def dataset_skip_def narrow_int32_def)

text \<open>
  C5, amended. In the Stack Overflow driver the validation function evaluates on the
  validation split alone and the test function on the concatenation of the validation
  split and the test split; in the EMNIST driver both evaluate on the whole held-out
  dataset. In both drivers the two functions hold the \<open>assign_weights_fn\<close> the driver
  was given.
\<close>

theorem evaluation_functions_datasets:
  "evaluates_on_split
     (federated_stackoverflow_run_federated env ipb aw ep bs k seed vs noov sl meu K es ls nl se)
     (validation_set (create_test_dataset_preprocess_fn env (create_vocab env vs) noov sl)
        (create_tf_dataset_from_all_clients env (snd (snd (load_data env)))) K)
     (test_set (create_test_dataset_preprocess_fn env (create_vocab env vs) noov sl)
        (create_tf_dataset_from_all_clients env (snd (snd (load_data env)))) K)
   \<and> assign_weights_to_keras_model (run_validation_fn
       (federated_stackoverflow_run_federated env ipb aw ep bs k seed vs noov sl meu K es ls nl se))
       = aw
   \<and> assign_weights_to_keras_model (run_test_fn
       (federated_stackoverflow_run_federated env ipb aw ep bs k seed vs noov sl meu K es ls nl se))
       = aw
   \<and> (\<forall>call. federated_emnist_run_federated env' ipb' aw' ep' bs' k' seed' m = Inr call \<longrightarrow>
          eval_dataset (run_validation_fn call) = snd (get_emnist_datasets env' bs' ep' False)
        \<and> eval_dataset (run_test_fn call) = snd (get_emnist_datasets env' bs' ep' False)
        \<and> assign_weights_to_keras_model (run_validation_fn call) = aw'
        \<and> assign_weights_to_keras_model (run_test_fn call) = aw')"
proof -
  have emnist: "\<forall>call. federated_emnist_run_federated env' ipb' aw' ep' bs' k' seed' m = Inr call \<longrightarrow>
          eval_dataset (run_validation_fn call) = snd (get_emnist_datasets env' bs' ep' False)
        \<and> eval_dataset (run_test_fn call) = snd (get_emnist_datasets env' bs' ep' False)
        \<and> assign_weights_to_keras_model (run_validation_fn call) = aw'
        \<and> assign_weights_to_keras_model (run_test_fn call) = aw'"
  proof (intro allI impI conjI)
    fix call
    assume r: "federated_emnist_run_federated env' ipb' aw' ep' bs' k' seed' m = Inr call"
    show "eval_dataset (run_validation_fn call) = snd (get_emnist_datasets env' bs' ep' False)"
      by (rule emnist_run_Inr(2) [OF r])
    show "eval_dataset (run_test_fn call) = snd (get_emnist_datasets env' bs' ep' False)"
      by (rule emnist_run_Inr(3) [OF r])
    show "assign_weights_to_keras_model (run_validation_fn call) = aw'"
      by (rule emnist_run_Inr(4) [OF r])
    show "assign_weights_to_keras_model (run_test_fn call) = aw'"
      by (rule emnist_run_Inr(5) [OF r])
  qed
  show ?thesis
    using stackoverflow_eval_fns [of env ipb aw ep bs k seed vs noov sl meu K es ls nl se]
      stackoverflow_assign [of env ipb aw ep bs k seed vs noov sl meu K es ls nl se]
      emnist
    by (intro conjI) (erule conjunct1 conjunct2 | assumption)+
qed

theorem evaluation_functions_datasets_witness:
  "eval_dataset (run_validation_fn
      (federated_stackoverflow_run_federated example_stackoverflow_env
         (\<lambda>model weight_fn comp. model) () 1 20 10 (Some 1) 10000 1 20 1000 2 96 670 1 False))
     = [11, 21]
   \<and> eval_dataset (run_test_fn
      (federated_stackoverflow_run_federated example_stackoverflow_env
         (\<lambda>model weight_fn comp. model) () 1 20 10 (Some 1) 10000 1 20 1000 2 96 670 1 False))
     = [11, 21, 31]
   \<and> (\<exists>call. federated_emnist_run_federated example_emnist_env (\<lambda>model. model) ()
                1 20 10 (Some 1) ''cnn'' = Inr call
          \<and> eval_dataset (run_validation_fn call) = [10, 20, 30]
          \<and> eval_dataset (run_test_fn call) = [10, 20, 30])"
proof -
  have base: "create_tf_dataset_from_all_clients example_stackoverflow_env
                (snd (snd (load_data example_stackoverflow_env))) = [10, 20, 30]"
    by (simp add: example_stackoverflow_env_def example_clientdata_def)
  have pre: "create_test_dataset_preprocess_fn example_stackoverflow_env
               (create_vocab example_stackoverflow_env 10000) 1 20 = map Suc"
    by (simp add: example_stackoverflow_env_def)
  have v: "validation_set (map Suc) [10, 20, 30] 2 = [11, 21]"
    by (simp add: validation_set_def dataset_take_def)
  have t: "test_set (map Suc) [10, 20, 30] 2 = [31]"
    by (simp add: test_set_def dataset_skip_def narrow_int32_def)
  obtain call where r: "federated_emnist_run_federated example_emnist_env (\<lambda>model. model) ()
                1 20 10 (Some 1) ''cnn'' = Inr call"
    by (simp add: federated_emnist_run_federated_def example_emnist_env_def Let_def)
  have held_out: "snd (get_emnist_datasets example_emnist_env 20 1 False) = [10, 20, 30]"
    by (simp add: example_emnist_env_def)
  note inst = evaluation_functions_datasets
      [of example_stackoverflow_env "\<lambda>model weight_fn comp. model" "()" 1 20 10 "Some 1"
          10000 1 20 1000 2 96 670 1 False
          example_emnist_env "\<lambda>model. model" "()" 1 20 10 "Some 1" "''cnn''"]
  from inst have "evaluates_on_split
      (federated_stackoverflow_run_federated example_stackoverflow_env
         (\<lambda>model weight_fn comp. model) () 1 20 10 (Some 1) 10000 1 20 1000 2 96 670 1 False)
      (validation_set (create_test_dataset_preprocess_fn example_stackoverflow_env
               (create_vocab example_stackoverflow_env 10000) 1 20)
         (create_tf_dataset_from_all_clients example_stackoverflow_env
                (snd (snd (load_data example_stackoverflow_env)))) 2)
      (test_set (create_test_dataset_preprocess_fn example_stackoverflow_env
               (create_vocab example_stackoverflow_env 10000) 1 20)
         (create_tf_dataset_from_all_clients example_stackoverflow_env
                (snd (snd (load_data example_stackoverflow_env)))) 2)"
    by (rule conjunct1)
  then have split: "evaluates_on_split
      (federated_stackoverflow_run_federated example_stackoverflow_env
         (\<lambda>model weight_fn comp. model) () 1 20 10 (Some 1) 10000 1 20 1000 2 96 670 1 False)
      [11, 21] [31]"
    by (simp only: base pre v t)
  from inst r have "eval_dataset (run_validation_fn call) = snd (get_emnist_datasets example_emnist_env 20 1 False)
      \<and> eval_dataset (run_test_fn call) = snd (get_emnist_datasets example_emnist_env 20 1 False)"
    by blast
  with r held_out have emnist: "\<exists>call. federated_emnist_run_federated example_emnist_env (\<lambda>model. model) ()
                1 20 10 (Some 1) ''cnn'' = Inr call
          \<and> eval_dataset (run_validation_fn call) = [10, 20, 30]
          \<and> eval_dataset (run_test_fn call) = [10, 20, 30]"
    by auto
  from split emnist show ?thesis
    by (simp add: evaluates_on_split_def dataset_concatenate_def)
qed

section \<open>The metrics of the sequence task\<close>

lemma accuracy_exclusions_metrics_builder:
  "accuracy_exclusions (metrics_builder tokens) =
     [(''accuracy_with_oov'', {pad tokens}),
      (''accuracy_no_oov'', {pad tokens} \<union> set (oov tokens)),
      (''accuracy_no_oov_or_eos'', {pad tokens, eos tokens} \<union> set (oov tokens))]"
  by (simp add: metrics_builder_def Let_def)

lemma isl_propagate:
  "isl x \<Longrightarrow> isl (case x of Inl e \<Rightarrow> Inl e | Inr r \<Rightarrow> Inr (f r))"
  by (cases x) simp_all

text \<open>
  C8. The metrics of the Stack Overflow task hold exactly three masked accuracy metrics.
  Their exclusion sets are the padding token alone for \<open>accuracy_with_oov\<close>, the padding
  token and the out-of-vocabulary tokens for \<open>accuracy_no_oov\<close>, and the padding token,
  the end-of-sequence token and the out-of-vocabulary tokens for
  \<open>accuracy_no_oov_or_eos\<close>. The metrics do not depend on the beginning-of-sequence
  token, and that token, being none of the other special tokens, is in no exclusion set.
\<close>

theorem masked_accuracy_exclusion_sets:
  "accuracy_exclusions (metrics_builder tokens) =
     [(''accuracy_with_oov'', {pad tokens}),
      (''accuracy_no_oov'', {pad tokens} \<union> set (oov tokens)),
      (''accuracy_no_oov_or_eos'', {pad tokens, eos tokens} \<union> set (oov tokens))]
   \<and> length (accuracy_exclusions (metrics_builder tokens)) = 3
   \<and> metrics_builder (tokens\<lparr>bos := b\<rparr>) = metrics_builder tokens
   \<and> (bos tokens \<noteq> pad tokens \<and> bos tokens \<noteq> eos tokens \<and> bos tokens \<notin> set (oov tokens) \<longrightarrow>
        (\<forall>entry \<in> set (accuracy_exclusions (metrics_builder tokens)). bos tokens \<notin> snd entry))"
proof -
  have indep: "metrics_builder (tokens\<lparr>bos := b\<rparr>) = metrics_builder tokens"
    by (simp add: metrics_builder_def)
  show ?thesis
    unfolding accuracy_exclusions_metrics_builder
    using indep by auto
qed

theorem masked_accuracy_exclusion_sets_witness:
  "accuracy_exclusions (metrics_builder \<lparr>pad = 0, oov = [10001], bos = 10002, eos = 10003\<rparr>) =
     [(''accuracy_with_oov'', {0}),
      (''accuracy_no_oov'', {0, 10001}),
      (''accuracy_no_oov_or_eos'', {0, 10003, 10001})]
   \<and> 10002 \<notin> {0::int}
   \<and> 10002 \<notin> {0, 10001 :: int}
   \<and> 10002 \<notin> {0, 10003, 10001 :: int}"
proof -
  have distinct_tokens:
    "bos \<lparr>pad = 0, oov = [10001], bos = 10002, eos = 10003\<rparr>
       \<noteq> pad \<lparr>pad = 0, oov = [10001], bos = 10002, eos = 10003\<rparr>
     \<and> bos \<lparr>pad = 0, oov = [10001], bos = 10002, eos = 10003\<rparr>
       \<noteq> eos \<lparr>pad = 0, oov = [10001], bos = 10002, eos = 10003\<rparr>
     \<and> bos \<lparr>pad = 0, oov = [10001], bos = 10002, eos = 10003\<rparr>
       \<notin> set (oov \<lparr>pad = 0, oov = [10001], bos = 10002, eos = 10003\<rparr>)"
    by simp
  from masked_accuracy_exclusion_sets
         [of "\<lparr>pad = 0, oov = [10001], bos = 10002, eos = 10003\<rparr>" 10002]
       distinct_tokens
  show ?thesis by auto
qed

section \<open>Invalid configurations\<close>

text \<open>
  C9. Started without positional arguments and with a task outside \<open>SUPPORTED_TASKS\<close>
  (or none), \<open>main\<close> raises a ValueError whose message holds the task given and the
  list of supported tasks, and calls no driver. With a model flag outside
  \<open>EMNIST_MODELS\<close> the EMNIST driver raises before it builds the training process and
  never reaches \<open>training_loop.run\<close>; when the training data has a client (so that
  \<open>client_ids[0]\<close> exists) the exception is a ValueError whose message holds the flag
  given and the list of models. \<open>main\<close> passes that exception on.
\<close>

theorem invalid_configuration_fails_before_training:
  "(length argv \<le> 1 \<and> FLAGS_task FLAGS \<notin> Some ` set SUPPORTED_TASKS \<longrightarrow>
      main utils emnist so aw argv FLAGS =
        Inl (ValueError (''--task flag '' @ py_str_optional (FLAGS_task FLAGS)
          @ '' is not supported, must be one of ['cifar100', 'emnist_cr', 'emnist_ae', 'shakespeare', 'stackoverflow_nwp', 'stackoverflow_lr'].'')))
   \<and> (m \<notin> set EMNIST_MODELS \<longrightarrow>
        isl (federated_emnist_run_federated env ipb aw' ep bs k seed m)
      \<and> (client_ids (fst (get_emnist_datasets env bs ep False)) \<noteq> [] \<longrightarrow>
           federated_emnist_run_federated env ipb aw' ep bs k seed m =
             Inl (ValueError (''Cannot handle model flag ['' @ m
                    @ ''], must be one of ['cnn', '2nn'].''))))
   \<and> (length argv \<le> 1 \<and> FLAGS_task FLAGS = Some ''emnist_cr''
        \<and> FLAGS_emnist_cr_model FLAGS \<notin> set EMNIST_MODELS \<longrightarrow>
        isl (main utils emnist so aw argv FLAGS)
      \<and> (client_ids (fst (get_emnist_datasets emnist (FLAGS_client_batch_size FLAGS)
              (FLAGS_client_epochs_per_round FLAGS) False)) \<noteq> [] \<longrightarrow>
           main utils emnist so aw argv FLAGS =
             Inl (ValueError (''Cannot handle model flag ['' @ FLAGS_emnist_cr_model FLAGS
                    @ ''], must be one of ['cnn', '2nn'].''))))"
proof (intro conjI impI)
  assume a: "length argv \<le> 1 \<and> FLAGS_task FLAGS \<notin> Some ` set SUPPORTED_TASKS"
  then have "main utils emnist so aw argv FLAGS =
     Inl (ValueError (''--task flag '' @ py_str_optional (FLAGS_task FLAGS)
            @ '' is not supported, must be one of ''
            @ py_str_list SUPPORTED_TASKS @ ''.''))"
    by (intro main_unsupported_task) simp_all
  then show "main utils emnist so aw argv FLAGS =
        Inl (ValueError (''--task flag '' @ py_str_optional (FLAGS_task FLAGS)
          @ '' is not supported, must be one of ['cifar100', 'emnist_cr', 'emnist_ae', 'shakespeare', 'stackoverflow_nwp', 'stackoverflow_lr'].''))"
    by (simp only: py_str_list_SUPPORTED_TASKS append.simps)
next
  assume m: "m \<notin> set EMNIST_MODELS"
  show "isl (federated_emnist_run_federated env ipb aw' ep bs k seed m)"
    by (rule emnist_run_invalid_model(1) [OF m])
next
  assume m: "m \<notin> set EMNIST_MODELS"
    and c: "client_ids (fst (get_emnist_datasets env bs ep False)) \<noteq> []"
  show "federated_emnist_run_federated env ipb aw' ep bs k seed m =
             Inl (ValueError (''Cannot handle model flag ['' @ m
                    @ ''], must be one of ['cnn', '2nn'].''))"
    by (rule emnist_run_invalid_model(2) [OF m c])
next
  assume a: "length argv \<le> 1 \<and> FLAGS_task FLAGS = Some ''emnist_cr''
        \<and> FLAGS_emnist_cr_model FLAGS \<notin> set EMNIST_MODELS"
  then have m: "FLAGS_emnist_cr_model FLAGS \<notin> set EMNIST_MODELS" by simp
  from a have eq: "main utils emnist so aw argv FLAGS =
     (case federated_emnist_run_federated emnist
                   (\<lambda>tff_model_fn. iterative_process_builder
                        (create_optimizer_fn_from_flags utils ''client'')
                        (create_lr_schedule_from_flags utils ''client'')
                        (create_optimizer_fn_from_flags utils ''server'')
                        (create_lr_schedule_from_flags utils ''server'')
                        tff_model_fn None None)
                   aw
                   (FLAGS_client_epochs_per_round FLAGS)
                   (FLAGS_client_batch_size FLAGS)
                   (FLAGS_clients_per_round FLAGS)
                   (FLAGS_client_datasets_random_seed FLAGS)
                   (FLAGS_emnist_cr_model FLAGS) of
              Inl e \<Rightarrow> Inl e
            | Inr r \<Rightarrow> Inr (Emnist_cr r))"
    by (intro main_emnist) simp_all
  show "isl (main utils emnist so aw argv FLAGS)"
    unfolding eq by (rule isl_propagate, rule emnist_run_invalid_model(1) [OF m])
  assume c: "client_ids (fst (get_emnist_datasets emnist (FLAGS_client_batch_size FLAGS)
              (FLAGS_client_epochs_per_round FLAGS) False)) \<noteq> []"
  show "main utils emnist so aw argv FLAGS =
             Inl (ValueError (''Cannot handle model flag ['' @ FLAGS_emnist_cr_model FLAGS
                    @ ''], must be one of ['cnn', '2nn'].''))"
    unfolding eq by (simp only: emnist_run_invalid_model(2) [OF m c] sum.case)
qed

theorem invalid_configuration_fails_before_training_witness:
  "main example_utils example_emnist_env example_stackoverflow_env () [''federated_trainer'']
     (example_flags\<lparr>FLAGS_task := Some ''mnist''\<rparr>) =
     Inl (ValueError ''--task flag mnist is not supported, must be one of ['cifar100', 'emnist_cr', 'emnist_ae', 'shakespeare', 'stackoverflow_nwp', 'stackoverflow_lr'].'')
   \<and> federated_emnist_run_federated example_emnist_env (\<lambda>model. model) () 1 20 10 (Some 1)
       ''resnet'' =
     Inl (ValueError ''Cannot handle model flag [resnet], must be one of ['cnn', '2nn'].'')
   \<and> main example_utils example_emnist_env example_stackoverflow_env () [''federated_trainer'']
     (example_flags\<lparr>FLAGS_emnist_cr_model := ''resnet''\<rparr>) =
     Inl (ValueError ''Cannot handle model flag [resnet], must be one of ['cnn', '2nn'].'')"
proof -
  have argv: "length [''federated_trainer''] \<le> 1" by simp
  have task: "FLAGS_task (example_flags\<lparr>FLAGS_task := Some ''mnist''\<rparr>)
                \<notin> Some ` set SUPPORTED_TASKS"
    by (simp add: SUPPORTED_TASKS_def)
  have model: "''resnet'' \<notin> set EMNIST_MODELS"
    by (simp add: EMNIST_MODELS_def)
  have clients: "client_ids (fst (get_emnist_datasets example_emnist_env 20 1 False)) \<noteq> []"
    by (simp add: example_emnist_env_def)
  have emnist_task: "FLAGS_task (example_flags\<lparr>FLAGS_emnist_cr_model := ''resnet''\<rparr>)
                       = Some ''emnist_cr''"
    by (simp add: example_flags_def)
  have flag_model: "FLAGS_emnist_cr_model (example_flags\<lparr>FLAGS_emnist_cr_model := ''resnet''\<rparr>)
                       = ''resnet''"
    by simp
  have flag_clients: "client_ids (fst (get_emnist_datasets example_emnist_env
       (FLAGS_client_batch_size (example_flags\<lparr>FLAGS_emnist_cr_model := ''resnet''\<rparr>))
       (FLAGS_client_epochs_per_round (example_flags\<lparr>FLAGS_emnist_cr_model := ''resnet''\<rparr>))
       False)) \<noteq> []"
    by (simp add: example_emnist_env_def)
  have emnist_flags:
    "length [''federated_trainer''] \<le> 1
     \<and> FLAGS_task (example_flags\<lparr>FLAGS_emnist_cr_model := ''resnet''\<rparr>) = Some ''emnist_cr''
     \<and> FLAGS_emnist_cr_model (example_flags\<lparr>FLAGS_emnist_cr_model := ''resnet''\<rparr>)
           \<notin> set EMNIST_MODELS"
    using argv emnist_task model by simp
  have "main example_utils example_emnist_env example_stackoverflow_env ()
     [''federated_trainer''] (example_flags\<lparr>FLAGS_task := Some ''mnist''\<rparr>) =
     Inl (ValueError (''--task flag ''
       @ py_str_optional (FLAGS_task (example_flags\<lparr>FLAGS_task := Some ''mnist''\<rparr>))
       @ '' is not supported, must be one of ['cifar100', 'emnist_cr', 'emnist_ae', 'shakespeare', 'stackoverflow_nwp', 'stackoverflow_lr'].''))"
    by (rule invalid_configuration_fails_before_training
               [THEN conjunct1, THEN mp, OF conjI, OF argv task])
  then have first: "main example_utils example_emnist_env example_stackoverflow_env ()
     [''federated_trainer''] (example_flags\<lparr>FLAGS_task := Some ''mnist''\<rparr>) =
     Inl (ValueError ''--task flag mnist is not supported, must be one of ['cifar100', 'emnist_cr', 'emnist_ae', 'shakespeare', 'stackoverflow_nwp', 'stackoverflow_lr'].'')"
    by (simp add: py_str_optional_def)
  have "federated_emnist_run_federated example_emnist_env (\<lambda>model. model) () 1 20 10
       (Some 1) ''resnet'' =
     Inl (ValueError (''Cannot handle model flag ['' @ ''resnet''
            @ ''], must be one of ['cnn', '2nn'].''))"
    by (rule invalid_configuration_fails_before_training
               [THEN conjunct2, THEN conjunct1, THEN mp, THEN conjunct2, THEN mp,
                OF model clients])
  then have second: "federated_emnist_run_federated example_emnist_env (\<lambda>model. model) ()
       1 20 10 (Some 1) ''resnet'' =
     Inl (ValueError ''Cannot handle model flag [resnet], must be one of ['cnn', '2nn'].'')"
    by simp
  have "main example_utils example_emnist_env example_stackoverflow_env ()
     [''federated_trainer''] (example_flags\<lparr>FLAGS_emnist_cr_model := ''resnet''\<rparr>) =
     Inl (ValueError (''Cannot handle model flag [''
            @ FLAGS_emnist_cr_model (example_flags\<lparr>FLAGS_emnist_cr_model := ''resnet''\<rparr>)
            @ ''], must be one of ['cnn', '2nn'].''))"
    by (rule invalid_configuration_fails_before_training
               [THEN conjunct2, THEN conjunct2, THEN mp, THEN conjunct2, THEN mp,
                OF emnist_flags flag_clients])
  then have third: "main example_utils example_emnist_env example_stackoverflow_env ()
     [''federated_trainer''] (example_flags\<lparr>FLAGS_emnist_cr_model := ''resnet''\<rparr>) =
     Inl (ValueError ''Cannot handle model flag [resnet], must be one of ['cnn', '2nn'].'')"
    by simp
  from first second third show ?thesis by blast
qed

section \<open>Client weights\<close>

lemma token_counters_metrics_builder:
  "token_counters (metrics_builder tokens) = [[pad tokens]]"
  by (simp add: metrics_builder_def Let_def)

lemma stackoverflow_process:
  "run_iterative_process
       (federated_stackoverflow_run_federated env ipb aw ep bs k seed vs noov sl meu K es ls nl se)
     = ipb \<lparr>keras_model = Recurrent_model vs noov es ls nl se,
            input_spec = type_signature_result_element env
              (create_train_dataset_preprocess_fn env (create_vocab env vs) noov bs ep sl meu),
            loss = SparseCategoricalCrossentropy (Some True),
            metrics = metrics_builder (get_special_tokens env vs noov)\<rparr>
         (client_weight_fn (to_float32 env))
         (create_train_dataset_preprocess_fn env (create_vocab env vs) noov bs ep sl meu)"
  by (simp add: federated_stackoverflow_run_federated_def Let_def split: prod.splits)

lemma filter_not_in_single:
  "filter (\<lambda>token. token \<notin> set [p]) ys = filter (\<lambda>token. token \<noteq> p) ys"
  by simp

text \<open>
  C6. The client weight function of the Stack Overflow task reads the entry
  \<open>num_tokens\<close> of the client's local outputs, squeezes the vector of one element to a
  scalar and casts it to float32 (and raises KeyError when the outputs hold no such
  entry). The only token counter among the task's metrics masks the padding token
  alone, so on the count it reports the weight is the number of ground-truth tokens
  other than the padding token, cast to float32. The driver passes this function to
  the process builder as the client weight function.
\<close>

theorem client_weight_is_token_count:
  "(map_of outputs ''num_tokens'' = Some (Vector [n]) \<longrightarrow>
      client_weight_fn float32 outputs = Inr (Scalar (float32 n)))
   \<and> (map_of outputs ''num_tokens'' = None \<longrightarrow>
      client_weight_fn float32 outputs = Inl (KeyError ''num_tokens''))
   \<and> token_counters (metrics_builder tokens) = [[pad tokens]]
   \<and> client_weight_fn float32
        [(''num_tokens'', num_tokens_counter [pad tokens] y_true)] =
      Inr (Scalar (float32 (int (length (filter (\<lambda>token. token \<noteq> pad tokens) y_true)))))
   \<and> run_iterative_process
       (federated_stackoverflow_run_federated env ipb aw ep bs k seed vs noov sl meu K es ls nl se)
     = ipb \<lparr>keras_model = Recurrent_model vs noov es ls nl se,
            input_spec = type_signature_result_element env
              (create_train_dataset_preprocess_fn env (create_vocab env vs) noov bs ep sl meu),
            loss = SparseCategoricalCrossentropy (Some True),
            metrics = metrics_builder (get_special_tokens env vs noov)\<rparr>
         (client_weight_fn (to_float32 env))
         (create_train_dataset_preprocess_fn env (create_vocab env vs) noov bs ep sl meu)"
proof (intro conjI impI)
  assume "map_of outputs ''num_tokens'' = Some (Vector [n])"
  then show "client_weight_fn float32 outputs = Inr (Scalar (float32 n))"
    by (simp add: client_weight_fn_def)
next
  assume "map_of outputs ''num_tokens'' = None"
  then show "client_weight_fn float32 outputs = Inl (KeyError ''num_tokens'')"
    by (simp add: client_weight_fn_def)
next
  show "token_counters (metrics_builder tokens) = [[pad tokens]]"
    by (rule token_counters_metrics_builder)
next
  show "client_weight_fn float32
        [(''num_tokens'', num_tokens_counter [pad tokens] y_true)] =
      Inr (Scalar (float32 (int (length (filter (\<lambda>token. token \<noteq> pad tokens) y_true)))))"
    by (simp add: client_weight_fn_def num_tokens_counter_def)
next
  show "run_iterative_process
       (federated_stackoverflow_run_federated env ipb aw ep bs k seed vs noov sl meu K es ls nl se)
     = ipb \<lparr>keras_model = Recurrent_model vs noov es ls nl se,
            input_spec = type_signature_result_element env
              (create_train_dataset_preprocess_fn env (create_vocab env vs) noov bs ep sl meu),
            loss = SparseCategoricalCrossentropy (Some True),
            metrics = metrics_builder (get_special_tokens env vs noov)\<rparr>
         (client_weight_fn (to_float32 env))
         (create_train_dataset_preprocess_fn env (create_vocab env vs) noov bs ep sl meu)"
    by (rule stackoverflow_process)
qed

theorem client_weight_is_token_count_witness:
  "client_weight_fn real_of_int
     [(''loss'', Vector [3]), (''num_tokens'', Vector [5]), (''num_batches'', Vector [2])]
     = Inr (Scalar 5)
   \<and> client_weight_fn real_of_int [(''loss'', Vector [3])] = Inl (KeyError ''num_tokens'')
   \<and> client_weight_fn real_of_int
        [(''num_tokens'', num_tokens_counter [0] [0, 3, 10001, 10003, 0])] = Inr (Scalar 3)"
proof -
  have present: "map_of [(''loss'', Vector [3]), (''num_tokens'', Vector [5 :: int]),
                   (''num_batches'', Vector [2])] ''num_tokens'' = Some (Vector [5])"
    by simp
  have absent: "map_of [(''loss'', Vector [3 :: int])] ''num_tokens'' = None"
    by simp
  have a: "client_weight_fn real_of_int
     [(''loss'', Vector [3]), (''num_tokens'', Vector [5]), (''num_batches'', Vector [2])]
     = Inr (Scalar (real_of_int 5))"
    by (rule client_weight_is_token_count [THEN conjunct1, THEN mp, OF present])
  have b: "client_weight_fn real_of_int [(''loss'', Vector [3])] = Inl (KeyError ''num_tokens'')"
    by (rule client_weight_is_token_count
               [THEN conjunct2, THEN conjunct1, THEN mp, OF absent])
  have "client_weight_fn real_of_int
        [(''num_tokens'',
          num_tokens_counter [pad \<lparr>pad = 0, oov = [10001], bos = 10002, eos = 10003\<rparr>]
            [0, 3, 10001, 10003, 0])] =
      Inr (Scalar (real_of_int (int (length (filter
        (\<lambda>token. token \<noteq> pad \<lparr>pad = 0, oov = [10001], bos = 10002, eos = 10003\<rparr>)
        [0, 3, 10001, 10003, 0])))))"
    by (rule client_weight_is_token_count
               [THEN conjunct2, THEN conjunct2, THEN conjunct2, THEN conjunct1])
  then have c: "client_weight_fn real_of_int
        [(''num_tokens'', num_tokens_counter [0] [0, 3, 10001, 10003, 0])] = Inr (Scalar 3)"
    by simp
  from a b c show ?thesis by simp
qed

text \<open>The weight of a task that supplies no client weight function.\<close>

lemma emnist_process:
  assumes "federated_emnist_run_federated env ipb aw ep bs k seed m = Inr call"
  shows "\<exists>tff_model_fn. run_iterative_process call = ipb tff_model_fn"
  using assms
  by (auto simp: federated_emnist_run_federated_def Let_def
           split: prod.splits list.splits if_splits)

lemma main_Emnist_cr:
  assumes "main utils emnist so aw argv FLAGS = Inr (Emnist_cr call)"
  shows "federated_emnist_run_federated emnist
           (\<lambda>tff_model_fn. iterative_process_builder
                (create_optimizer_fn_from_flags utils ''client'')
                (create_lr_schedule_from_flags utils ''client'')
                (create_optimizer_fn_from_flags utils ''server'')
                (create_lr_schedule_from_flags utils ''server'')
                tff_model_fn None None)
           aw
           (FLAGS_client_epochs_per_round FLAGS)
           (FLAGS_client_batch_size FLAGS)
           (FLAGS_clients_per_round FLAGS)
           (FLAGS_client_datasets_random_seed FLAGS)
           (FLAGS_emnist_cr_model FLAGS) = Inr call"
  using assms
  by (simp add: main_def Let_def split: if_splits sum.splits)

lemma client_weight_default:
  "client_weight (iterative_process_builder co cl so sl model None pcomp) to_weight n outputs
     = Inr (Scalar (to_weight n))"
  by (simp add: client_weight_def iterative_process_builder_def)

lemma emnist_default_weight:
  assumes r: "federated_emnist_run_federated env
                (\<lambda>tff_model_fn. iterative_process_builder co cl so sl tff_model_fn None None)
                aw ep bs k seed m = Inr call"
  shows "process_client_weight_fn (run_iterative_process call) = None
        \<and> client_weight (run_iterative_process call) to_weight n outputs
            = Inr (Scalar (to_weight n))"
proof -
  from emnist_process [OF r] obtain tff_model_fn where
    "run_iterative_process call
       = iterative_process_builder co cl so sl tff_model_fn None None"
    by blast
  then show ?thesis
    by (simp add: client_weight_def iterative_process_builder_def)
qed

text \<open>
  C7. A process built by \<open>iterative_process_builder\<close> without a client weight function
  weights a client by the number of examples it processed. The EMNIST driver supplies
  none: the process it builds, also when called from \<open>main\<close>, holds no client weight
  function and weights by the number of examples.
\<close>

theorem default_client_weight_is_num_examples:
  "client_weight (iterative_process_builder co cl so sl model None pcomp) to_weight n outputs
     = Inr (Scalar (to_weight n))
   \<and> (\<forall>call. federated_emnist_run_federated env
                (\<lambda>tff_model_fn. iterative_process_builder co cl so sl tff_model_fn None None)
                aw ep bs k seed m = Inr call \<longrightarrow>
          process_client_weight_fn (run_iterative_process call) = None
        \<and> client_weight (run_iterative_process call) to_weight n outputs
            = Inr (Scalar (to_weight n)))
   \<and> (\<forall>call. main utils emnist stackoverflow aw argv FLAGS = Inr (Emnist_cr call) \<longrightarrow>
          process_client_weight_fn (run_iterative_process call) = None
        \<and> client_weight (run_iterative_process call) to_weight n outputs
            = Inr (Scalar (to_weight n)))"
proof (intro conjI allI impI, goal_cases)
  case 1
  show ?case by (rule client_weight_default)
next
  case (2 call)
  from emnist_default_weight [OF 2] show ?case by simp
next
  case (3 call)
  from emnist_default_weight [OF 3] show ?case by simp
next
  case (4 call)
  from emnist_default_weight [OF main_Emnist_cr [OF 4]] show ?case by simp
next
  case (5 call)
  from emnist_default_weight [OF main_Emnist_cr [OF 5]] show ?case by simp
qed

theorem default_client_weight_is_num_examples_witness:
  "\<exists>call. main example_utils example_emnist_env example_stackoverflow_env ()
             [''federated_trainer''] example_flags = Inr (Emnist_cr call)
     \<and> process_client_weight_fn (run_iterative_process call) = None
     \<and> client_weight (run_iterative_process call) real_of_int 7
          [(''num_tokens'', Vector [5])] = Inr (Scalar 7)"
proof -
  obtain call where r: "main example_utils example_emnist_env example_stackoverflow_env ()
             [''federated_trainer''] example_flags = Inr (Emnist_cr call)"
    by (simp add: main_def example_flags_def federated_emnist_run_federated_def
          example_emnist_env_def Let_def)
  have "process_client_weight_fn (run_iterative_process call) = None
     \<and> client_weight (run_iterative_process call) real_of_int 7
          [(''num_tokens'', Vector [5])] = Inr (Scalar (real_of_int 7))"
    by (rule default_client_weight_is_num_examples
               [THEN conjunct2, THEN conjunct2, THEN spec, THEN mp, OF r])
  with r show ?thesis by auto
qed

section \<open>The client sampler\<close>

lemma length_draw: "k \<le> length pool \<Longrightarrow> length (draw pool k numbers) = k"
proof (induction k arbitrary: pool)
  case 0
  then show ?case by simp
next
  case (Suc k)
  then have ne: "pool \<noteq> []" by auto
  let ?i = "numbers k mod length pool"
  from ne have i: "?i < length pool" by simp
  then have "k \<le> length (take ?i pool @ drop (Suc ?i) pool)"
    using Suc.prems by simp
  from Suc.IH [OF this] ne show ?case by (simp add: Let_def)
qed

lemma set_draw: "set (draw pool k numbers) \<subseteq> set pool"
proof (induction k arbitrary: pool)
  case 0
  then show ?case by simp
next
  case (Suc k)
  show ?case
  proof (cases "pool = []")
    case True
    then show ?thesis by simp
  next
    case False
    let ?i = "numbers k mod length pool"
    from False have i: "?i < length pool" by simp
    have "set (take ?i pool @ drop (Suc ?i) pool) \<subseteq> set pool"
      using set_take_subset set_drop_subset by fastforce
    with Suc.IH [of "take ?i pool @ drop (Suc ?i) pool"] i False
    show ?thesis by (auto simp: Let_def)
  qed
qed

lemma distinct_without_nth:
  assumes "distinct pool" and "i < length pool"
  shows "distinct (take i pool @ drop (Suc i) pool)"
    and "pool ! i \<notin> set (take i pool @ drop (Suc i) pool)"
proof -
  from assms(2) have "pool = take i pool @ pool ! i # drop (Suc i) pool"
    by (rule id_take_nth_drop)
  with assms(1) have "distinct (take i pool @ pool ! i # drop (Suc i) pool)"
    by simp
  then show "distinct (take i pool @ drop (Suc i) pool)"
    and "pool ! i \<notin> set (take i pool @ drop (Suc i) pool)"
    by auto
qed

lemma distinct_draw: "distinct pool \<Longrightarrow> distinct (draw pool k numbers)"
proof (induction k arbitrary: pool)
  case 0
  then show ?case by simp
next
  case (Suc k)
  show ?case
  proof (cases "pool = []")
    case True
    then show ?thesis by simp
  next
    case False
    let ?i = "numbers k mod length pool"
    let ?rest = "take ?i pool @ drop (Suc ?i) pool"
    from False have i: "?i < length pool" by simp
    note d = distinct_without_nth [OF Suc.prems i]
    from set_draw [of ?rest k numbers] d(2)
    have "pool ! ?i \<notin> set (draw ?rest k numbers)" by blast
    with Suc.IH [OF d(1)] False show ?thesis by (simp add: Let_def)
  qed
qed

lemma sample_Inr:
  assumes "0 \<le> train_clients_per_round fn"
    and "train_clients_per_round fn \<le> int (length (client_ids (train_dataset fn)))"
  shows "\<exists>ids. sample generator entropy fn r = Inr ids
           \<and> length ids = nat (train_clients_per_round fn)
           \<and> set ids \<subseteq> set (client_ids (train_dataset fn))
           \<and> (distinct (client_ids (train_dataset fn)) \<longrightarrow> distinct ids)"
proof -
  let ?numbers = "case random_seed fn of
                        Some seed \<Rightarrow> generator seed r
                      | None \<Rightarrow> entropy r"
  let ?ids = "draw (client_ids (train_dataset fn)) (nat (train_clients_per_round fn)) ?numbers"
  from assms have "sample generator entropy fn r = Inr ?ids"
    by (simp add: sample_def Let_def)
  moreover from assms have "length ?ids = nat (train_clients_per_round fn)"
    by (intro length_draw) simp
  moreover have "set ?ids \<subseteq> set (client_ids (train_dataset fn))"
    by (rule set_draw)
  moreover have "distinct (client_ids (train_dataset fn)) \<longrightarrow> distinct ?ids"
    by (simp add: distinct_draw)
  ultimately show ?thesis by blast
qed

lemma sample_Inl:
  assumes "int (length (client_ids (train_dataset fn))) < train_clients_per_round fn"
  shows "sample generator entropy fn r
           = Inl (ConfigurationError ''clients_per_round exceeds the available clients'')"
  using assms by (simp add: sample_def Let_def)

lemma sample_seeded:
  assumes "random_seed fn = Some seed"
  shows "sample generator entropy fn r = sample generator entropy' fn r"
  using assms by (simp add: sample_def Let_def)

lemma stackoverflow_sampler:
  "run_client_datasets_fn
     (federated_stackoverflow_run_federated env ipb aw ep bs k seed vs noov sl meu K es ls nl se)
   = \<lparr>train_dataset = fst (load_data env), train_clients_per_round = k, random_seed = seed\<rparr>"
  by (simp add: federated_stackoverflow_run_federated_def Let_def split: prod.splits)

lemma emnist_sampler:
  assumes "federated_emnist_run_federated env ipb aw ep bs k seed m = Inr call"
  shows "run_client_datasets_fn call
   = \<lparr>train_dataset = fst (get_emnist_datasets env bs ep False),
      train_clients_per_round = k, random_seed = seed\<rparr>"
  using assms
  by (auto simp: federated_emnist_run_federated_def Let_def
           split: prod.splits list.splits if_splits)

lemma sample_seeded_only:
  assumes "random_seed fn = Some seed" and "random_seed fn' = Some seed"
    and "client_ids (train_dataset fn') = client_ids (train_dataset fn)"
    and "train_clients_per_round fn' = train_clients_per_round fn"
  shows "sample generator entropy fn r = sample generator entropy' fn' r"
  using assms by (simp add: sample_def Let_def)

lemma draw_numeral:
  "draw pool (numeral v) numbers =
     (if pool = [] then []
      else (let i = numbers (pred_numeral v) mod length pool
            in pool ! i # draw (take i pool @ drop (Suc i) pool) (pred_numeral v) numbers))"
  by (simp add: numeral_eq_Suc)

lemma rounds_numeral:
  "rounds sample_fn resolve next_fn r (numeral v) state =
     (case sample_fn r of
        Inl e \<Rightarrow> Inl e
      | Inr ids \<Rightarrow>
         (let datasets = map resolve ids
          in case next_fn state datasets of
               (state', round_metrics) \<Rightarrow>
                 (case rounds sample_fn resolve next_fn (Suc r) (pred_numeral v) state' of
                    Inl e \<Rightarrow> Inl e
                  | Inr (final, events) \<Rightarrow>
                      Inr (final, Sample r ids
                                  # Next r state datasets state' round_metrics
                                  # events))))"
  by (simp add: numeral_eq_Suc)

lemma example_samples:
  "sample example_generator entropy example_sampler 0 = Inr [''c3'', ''c4'']"
  "sample example_generator entropy example_sampler (Suc 0) = Inr [''c0'', ''c1'']"
  "sample example_generator entropy example_sampler (Suc (Suc 0)) = Inr [''c2'', ''c1'']"
  by (simp_all add: sample_def example_sampler_def example_five_clients_def
        example_generator_def Let_def draw_numeral)

lemma example_run:
  "training_loop_run example_generator (\<lambda>r j. 0) (\<lambda>p. 0::nat)
     (\<lambda>p s ds. (Suc s, length ds)) example_call 3 =
   Inr (3, [Initialize 0, Sample 0 [''c3'', ''c4''],
          Next 0 0 [[2, 7], [2, 7]] 1 2, Sample 1 [''c0'', ''c1''],
          Next 1 1 [[2, 7], [2, 7]] 2 2, Sample 2 [''c2'', ''c1''],
          Next 2 2 [[2, 7], [2, 7]] 3 2])"
proof -
  have fn: "run_client_datasets_fn example_call = example_sampler"
    by (simp add: example_call_def)
  have res: "create_tf_dataset_for_client (train_dataset example_sampler) = (\<lambda>c. [length c, 7])"
    by (simp add: example_sampler_def example_five_clients_def)
  show ?thesis
    by (simp add: training_loop_run_def Let_def fn res rounds_numeral example_samples)
qed

text \<open>
  C1. With a seed, the sequence of samples over any round indices is the same in two
  runs, whatever the entropy of each run, and a sample depends on the sampler only
  through the client identifiers, the number of clients per round and the seed. This
  holds of the samplers the Stack Overflow driver and the EMNIST driver build, which
  hold the seed the driver was given.
\<close>

theorem seeded_sampling_reproducible:
  "(random_seed fn = Some seed \<longrightarrow>
      map (sample generator entropy fn) round_indices
        = map (sample generator entropy' fn) round_indices)
   \<and> (random_seed fn = Some seed \<and> random_seed fn' = Some seed
       \<and> client_ids (train_dataset fn') = client_ids (train_dataset fn)
       \<and> train_clients_per_round fn' = train_clients_per_round fn \<longrightarrow>
      sample generator entropy fn r = sample generator entropy' fn' r)
   \<and> map (sample generator entropy (run_client_datasets_fn
        (federated_stackoverflow_run_federated env ipb aw ep bs k (Some seed)
           vs noov sl meu K es ls nl se))) round_indices
     = map (sample generator entropy' (run_client_datasets_fn
        (federated_stackoverflow_run_federated env ipb aw ep bs k (Some seed)
           vs noov sl meu K es ls nl se))) round_indices
   \<and> (\<forall>call. federated_emnist_run_federated env' ipb' aw' ep' bs' k' (Some seed) m = Inr call \<longrightarrow>
        map (sample generator entropy (run_client_datasets_fn call)) round_indices
          = map (sample generator entropy' (run_client_datasets_fn call)) round_indices)"
proof (intro conjI allI impI, goal_cases)
  case 1
  then show ?case using sample_seeded [of fn seed generator entropy _ entropy'] by simp
next
  case 2
  then show ?case by (intro sample_seeded_only) simp_all
next
  case 3
  show ?case
    by (rule map_cong [OF refl], rule sample_seeded [where seed = seed])
       (simp add: stackoverflow_sampler)
next
  case (4 call)
  show ?case
    by (rule map_cong [OF refl], rule sample_seeded [where seed = seed])
       (simp add: emnist_sampler [OF 4])
qed

theorem seeded_sampling_reproducible_witness:
  "map (sample example_generator (\<lambda>r j. 0) example_sampler) [0, Suc 0, Suc (Suc 0)]
     = map (sample example_generator (\<lambda>r j. r + j) example_sampler) [0, Suc 0, Suc (Suc 0)]
   \<and> map (sample example_generator (\<lambda>r j. 0) example_sampler) [0, Suc 0, Suc (Suc 0)]
     = [Inr [''c3'', ''c4''], Inr [''c0'', ''c1''], Inr [''c2'', ''c1'']]"
proof -
  have seeded: "random_seed example_sampler = Some 1"
    by (simp add: example_sampler_def)
  have "map (sample example_generator (\<lambda>r j. 0) example_sampler) [0, Suc 0, Suc (Suc 0)]
     = map (sample example_generator (\<lambda>r j. r + j) example_sampler) [0, Suc 0, Suc (Suc 0)]"
    by (rule seeded_sampling_reproducible [THEN conjunct1, THEN mp, OF seeded])
  then show ?thesis by (simp add: example_samples)
qed

text \<open>
  C2. With pairwise different client identifiers and \<open>0 \<le> clients_per_round \<le>\<close> the
  number of clients, every round's sample succeeds and holds exactly
  \<open>clients_per_round\<close> pairwise different identifiers of available clients. With
  \<open>clients_per_round\<close> above the number of clients it fails with ConfigurationError.
\<close>

theorem sample_distinct_clients:
  "(0 \<le> train_clients_per_round fn
    \<and> train_clients_per_round fn \<le> int (length (client_ids (train_dataset fn)))
    \<and> distinct (client_ids (train_dataset fn)) \<longrightarrow>
      (\<exists>ids. sample generator entropy fn r = Inr ids
         \<and> length ids = nat (train_clients_per_round fn)
         \<and> distinct ids
         \<and> card (set ids) = nat (train_clients_per_round fn)
         \<and> set ids \<subseteq> set (client_ids (train_dataset fn))))
   \<and> (int (length (client_ids (train_dataset fn))) < train_clients_per_round fn \<longrightarrow>
      (\<exists>message. sample generator entropy fn r = Inl (ConfigurationError message)))"
proof (intro conjI impI)
  assume a: "0 \<le> train_clients_per_round fn
    \<and> train_clients_per_round fn \<le> int (length (client_ids (train_dataset fn)))
    \<and> distinct (client_ids (train_dataset fn))"
  then obtain ids where ids: "sample generator entropy fn r = Inr ids"
      "length ids = nat (train_clients_per_round fn)"
      "set ids \<subseteq> set (client_ids (train_dataset fn))"
      "distinct ids"
    using sample_Inr [of fn generator entropy r] by blast
  from ids(2,4) have "card (set ids) = nat (train_clients_per_round fn)"
    by (simp add: distinct_card)
  with ids show "\<exists>ids. sample generator entropy fn r = Inr ids
         \<and> length ids = nat (train_clients_per_round fn)
         \<and> distinct ids
         \<and> card (set ids) = nat (train_clients_per_round fn)
         \<and> set ids \<subseteq> set (client_ids (train_dataset fn))"
    by blast
next
  assume "int (length (client_ids (train_dataset fn))) < train_clients_per_round fn"
  from sample_Inl [OF this]
  show "\<exists>message. sample generator entropy fn r = Inl (ConfigurationError message)"
    by blast
qed

theorem sample_distinct_clients_witness:
  "sample example_generator (\<lambda>r j. 0) example_sampler 0 = Inr [''c3'', ''c4'']
   \<and> length [''c3'', ''c4''] = nat 2 \<and> distinct [''c3'', ''c4'']
   \<and> (\<exists>ids. sample example_generator (\<lambda>r j. 0) (example_sampler\<lparr>random_seed := None\<rparr>) 0
                = Inr ids \<and> length ids = nat 2 \<and> distinct ids)
   \<and> (\<exists>message. sample example_generator (\<lambda>r j. 0)
                    (example_sampler\<lparr>train_clients_per_round := 6\<rparr>) 0
                  = Inl (ConfigurationError message))"
proof -
  have ok: "0 \<le> train_clients_per_round (example_sampler\<lparr>random_seed := None\<rparr>)
    \<and> train_clients_per_round (example_sampler\<lparr>random_seed := None\<rparr>)
        \<le> int (length (client_ids (train_dataset (example_sampler\<lparr>random_seed := None\<rparr>))))
    \<and> distinct (client_ids (train_dataset (example_sampler\<lparr>random_seed := None\<rparr>)))"
    by (simp add: example_sampler_def example_five_clients_def)
  have k: "train_clients_per_round (example_sampler\<lparr>random_seed := None\<rparr>) = 2"
    by (simp add: example_sampler_def)
  have too_many: "int (length (client_ids (train_dataset
                     (example_sampler\<lparr>train_clients_per_round := 6\<rparr>))))
                   < train_clients_per_round (example_sampler\<lparr>train_clients_per_round := 6\<rparr>)"
    by (simp add: example_sampler_def example_five_clients_def)
  from sample_distinct_clients [THEN conjunct1, THEN mp, OF ok,
         of example_generator "\<lambda>r j. 0" 0] k
  have unseeded: "\<exists>ids. sample example_generator (\<lambda>r j. 0)
                    (example_sampler\<lparr>random_seed := None\<rparr>) 0
                = Inr ids \<and> length ids = nat 2 \<and> distinct ids"
    by auto
  have failing: "\<exists>message. sample example_generator (\<lambda>r j. 0)
                    (example_sampler\<lparr>train_clients_per_round := 6\<rparr>) 0
                  = Inl (ConfigurationError message)"
    by (rule sample_distinct_clients [THEN conjunct2, THEN mp, OF too_many])
  from unseeded failing show ?thesis
    by (simp add: example_samples)
qed

section \<open>The round loop\<close>

lemma rounds_returns:
  assumes "\<And>r. \<exists>ids. sample_fn r = Inr ids \<and> length ids = k \<and> distinct ids"
  shows "\<exists>final events. rounds sample_fn resolve next_fn r n state = Inr (final, events)
           \<and> sequential sample_fn resolve next_fn r state events
           \<and> initialize_calls events = []
           \<and> map fst (next_calls events) = [r ..< r + n]
           \<and> (\<forall>c \<in> set (next_calls events). length (snd c) = k)
           \<and> (\<forall>ids \<in> set (sampled events). length ids = k \<and> distinct ids)"
proof (induction n arbitrary: r state)
  case 0
  show ?case by simp
next
  case (Suc n)
  from assms obtain ids where ids: "sample_fn r = Inr ids" "length ids = k" "distinct ids"
    by blast
  obtain state' round_metrics where nx: "next_fn state (map resolve ids) = (state', round_metrics)"
    by (cases "next_fn state (map resolve ids)") auto
  from Suc.IH [of "Suc r" state'] obtain final events where
    ih: "rounds sample_fn resolve next_fn (Suc r) n state' = Inr (final, events)"
        "sequential sample_fn resolve next_fn (Suc r) state' events"
        "initialize_calls events = []"
        "map fst (next_calls events) = [Suc r ..< Suc r + n]"
        "\<forall>c \<in> set (next_calls events). length (snd c) = k"
        "\<forall>ids \<in> set (sampled events). length ids = k \<and> distinct ids"
    by blast
  let ?events = "Sample r ids # Next r state (map resolve ids) state' round_metrics # events"
  have run: "rounds sample_fn resolve next_fn r (Suc n) state = Inr (final, ?events)"
    using ids(1) nx ih(1) by (simp add: Let_def)
  have sq: "sequential sample_fn resolve next_fn r state ?events"
    using ids(1) nx ih(2) by simp
  have ic: "initialize_calls ?events = []"
    using ih(3) by simp
  have "[r ..< r + Suc n] = r # [Suc r ..< Suc r + n]"
    by (simp add: upt_rec)
  then have nr: "map fst (next_calls ?events) = [r ..< r + Suc n]"
    using ih(4) by simp
  have nd: "\<forall>c \<in> set (next_calls ?events). length (snd c) = k"
    using ih(5) ids(2) by simp
  have sm: "\<forall>ids \<in> set (sampled ?events). length ids = k \<and> distinct ids"
    using ih(6) ids(2,3) by simp
  from run sq ic nr nd sm show ?case by blast
qed

text \<open>
  C3. With pairwise different client identifiers and \<open>0 \<le> clients_per_round \<le>\<close> the
  number of clients, a run of \<open>num_rounds\<close> rounds returns; its first event is the one
  call of \<open>initialize\<close>; \<open>next\<close> is called \<open>num_rounds\<close> times, for the rounds
  \<open>0, ..., num_rounds - 1\<close> in this order, each time on \<open>clients_per_round\<close>
  datasets, those of pairwise different clients; and the events are in strict sequence:
  the sampling of a round follows the call of \<open>next\<close> of the round before, and that
  call's returned state is the state \<open>next\<close> is given.
\<close>

theorem training_loop_rounds:
  assumes "0 \<le> train_clients_per_round (run_client_datasets_fn call)"
    and "train_clients_per_round (run_client_datasets_fn call)
           \<le> int (length (client_ids (train_dataset (run_client_datasets_fn call))))"
    and "distinct (client_ids (train_dataset (run_client_datasets_fn call)))"
  shows "\<exists>final events.
      training_loop_run generator entropy initialize next_fn call num_rounds
        = Inr (final, Initialize (initialize (run_iterative_process call)) # events)
    \<and> initialize_calls events = []
    \<and> map fst (next_calls events) = [0 ..< num_rounds]
    \<and> (\<forall>c \<in> set (next_calls events).
          length (snd c) = nat (train_clients_per_round (run_client_datasets_fn call)))
    \<and> (\<forall>ids \<in> set (sampled events).
          length ids = nat (train_clients_per_round (run_client_datasets_fn call))
          \<and> distinct ids)
    \<and> sequential (sample generator entropy (run_client_datasets_fn call))
        (create_tf_dataset_for_client (train_dataset (run_client_datasets_fn call)))
        (next_fn (run_iterative_process call)) 0
        (initialize (run_iterative_process call)) events"
proof -
  let ?fn = "run_client_datasets_fn call"
  have smp: "\<exists>ids. sample generator entropy ?fn r = Inr ids
               \<and> length ids = nat (train_clients_per_round ?fn) \<and> distinct ids" for r
    using sample_Inr [OF assms(1,2), of generator entropy r] assms(3) by blast
  from rounds_returns [of "sample generator entropy ?fn" "nat (train_clients_per_round ?fn)"
         "create_tf_dataset_for_client (train_dataset ?fn)"
         "next_fn (run_iterative_process call)" 0 num_rounds
         "initialize (run_iterative_process call)", OF smp]
  obtain final events where
    r: "rounds (sample generator entropy ?fn)
          (create_tf_dataset_for_client (train_dataset ?fn))
          (next_fn (run_iterative_process call)) 0 num_rounds
          (initialize (run_iterative_process call)) = Inr (final, events)"
    and p: "sequential (sample generator entropy ?fn)
          (create_tf_dataset_for_client (train_dataset ?fn))
          (next_fn (run_iterative_process call)) 0
          (initialize (run_iterative_process call)) events"
       "initialize_calls events = []"
       "map fst (next_calls events) = [0 ..< 0 + num_rounds]"
       "\<forall>c \<in> set (next_calls events). length (snd c) = nat (train_clients_per_round ?fn)"
       "\<forall>ids \<in> set (sampled events).
           length ids = nat (train_clients_per_round ?fn) \<and> distinct ids"
    by blast
  from r have "training_loop_run generator entropy initialize next_fn call num_rounds
        = Inr (final, Initialize (initialize (run_iterative_process call)) # events)"
    by (simp add: training_loop_run_def Let_def)
  with p show ?thesis by auto
qed

theorem training_loop_rounds_witness:
  "training_loop_run example_generator (\<lambda>r j. 0) (\<lambda>p. 0::nat)
     (\<lambda>p s ds. (Suc s, length ds)) example_call 3 =
   Inr (3, [Initialize 0, Sample 0 [''c3'', ''c4''],
          Next 0 0 [[2, 7], [2, 7]] 1 2, Sample 1 [''c0'', ''c1''],
          Next 1 1 [[2, 7], [2, 7]] 2 2, Sample 2 [''c2'', ''c1''],
          Next 2 2 [[2, 7], [2, 7]] 3 2])
   \<and> (\<exists>final events.
        training_loop_run example_generator (\<lambda>r j. 0) (\<lambda>p. 0::nat)
          (\<lambda>p s ds. (Suc s, length ds)) example_call 3
          = Inr (final, Initialize 0 # events)
      \<and> initialize_calls events = []
      \<and> map fst (next_calls events) = [0 ..< 3]
      \<and> (\<forall>c \<in> set (next_calls events). length (snd c) = nat 2)
      \<and> (\<forall>ids \<in> set (sampled events). length ids = nat 2 \<and> distinct ids))"
proof -
  have fn: "run_client_datasets_fn example_call = example_sampler"
    by (simp add: example_call_def)
  have h1: "0 \<le> train_clients_per_round (run_client_datasets_fn example_call)"
    by (simp add: fn example_sampler_def)
  have h2: "train_clients_per_round (run_client_datasets_fn example_call)
           \<le> int (length (client_ids (train_dataset (run_client_datasets_fn example_call))))"
    by (simp add: fn example_sampler_def example_five_clients_def)
  have h3: "distinct (client_ids (train_dataset (run_client_datasets_fn example_call)))"
    by (simp add: fn example_sampler_def example_five_clients_def)
  have k: "train_clients_per_round (run_client_datasets_fn example_call) = 2"
    by (simp add: fn example_sampler_def)
  from training_loop_rounds [OF h1 h2 h3, of example_generator "\<lambda>r j. 0" "\<lambda>p. 0::nat"
         "\<lambda>p s ds. (Suc s, length ds)" 3]
  have "\<exists>final events.
        training_loop_run example_generator (\<lambda>r j. 0) (\<lambda>p. 0::nat)
          (\<lambda>p s ds. (Suc s, length ds)) example_call 3
          = Inr (final, Initialize 0 # events)
      \<and> initialize_calls events = []
      \<and> map fst (next_calls events) = [0 ..< 3]
      \<and> (\<forall>c \<in> set (next_calls events). length (snd c) = nat 2)
      \<and> (\<forall>ids \<in> set (sampled events). length ids = nat 2 \<and> distinct ids)"
    unfolding k by blast
  with example_run show ?thesis by blast
qed

end
